theory Spec2Isabelle
  imports Complex_Main "HOL-Library.Multiset"
begin

section \<open>JavaScript strings\<close>

text \<open>
  A JavaScript string is a sequence of UTF-16 code units; \<open>length\<close>, \<open>slice\<close>,
  indexing and the regular expressions of the projector all work on code units. A code
  unit is modelled by its number, a string by the list of its code units. \<open>js\<close> turns
  an ASCII literal into such a list.
\<close>

type_synonym jsstring = "nat list"

definition js :: "string \<Rightarrow> jsstring" where
  "js s = map of_char s"

text \<open>
  The class \<open>\s\<close> of ECMAScript regular expressions, which is also what
  \<open>String.prototype.trim\<close> strips: WhiteSpace and LineTerminator.
\<close>

definition isWhiteSpace :: "nat \<Rightarrow> bool" where
  "isWhiteSpace c \<longleftrightarrow>
     c = 9 \<or> c = 10 \<or> c = 11 \<or> c = 12 \<or> c = 13 \<or> c = 32 \<or> c = 160 \<or> c = 5760 \<or>
     (8192 \<le> c \<and> c \<le> 8202) \<or> c = 8232 \<or> c = 8233 \<or> c = 8239 \<or> c = 8287 \<or>
     c = 12288 \<or> c = 65279"

definition trimStart :: "jsstring \<Rightarrow> jsstring" where
  "trimStart s = dropWhile isWhiteSpace s"

definition trimEnd :: "jsstring \<Rightarrow> jsstring" where
  "trimEnd s = rev (dropWhile isWhiteSpace (rev s))"

definition trim :: "jsstring \<Rightarrow> jsstring" where
  "trim s = trimEnd (trimStart s)"

text \<open>
  \<open>toLowerCase\<close>, exact on the code units below 256 (Basic Latin and Latin-1); the
  code units above are left as they are.
\<close>

definition lowerUnit :: "nat \<Rightarrow> nat" where
  "lowerUnit c =
     (if (65 \<le> c \<and> c \<le> 90) \<or> (192 \<le> c \<and> c \<le> 222 \<and> c \<noteq> 215) then c + 32 else c)"

definition toLowerCase :: "jsstring \<Rightarrow> jsstring" where
  "toLowerCase s = map lowerUnit s"

text \<open>\<open>Array.prototype.join\<close> on strings.\<close>

fun joinWith :: "jsstring \<Rightarrow> jsstring list \<Rightarrow> jsstring" where
  "joinWith sep [] = []"
| "joinWith sep [x] = x"
| "joinWith sep (x # y # ys) = x @ sep @ joinWith sep (y # ys)"

text \<open>
  The decimal rendering of a number in a template literal, for the integers (the usage
  counters \<open>used\<close> and \<open>size\<close> are token counts).
\<close>

fun showNat :: "nat \<Rightarrow> jsstring" where
  "showNat n = (if n < 10 then [48 + n] else showNat (n div 10) @ [48 + n mod 10])"

definition showInt :: "int \<Rightarrow> jsstring" where
  "showInt i = (if i < 0 then 45 # showNat (nat (- i)) else showNat (nat i))"

text \<open>A value of type \<open>string | undefined\<close> is truthy when it is a non-empty string.\<close>

fun truthy :: "jsstring option \<Rightarrow> bool" where
  "truthy None = False"
| "truthy (Some s) = (s \<noteq> [])"

section \<open>Projection settings (acp-stream-settings)\<close>

datatype AcpDeliveryMode = live | final_only

datatype AcpHiddenBoundarySeparator = sep_none | sep_space | sep_newline | sep_paragraph

text \<open>
  \<open>AcpSessionUpdateTag\<close> is a union of string literals, erased at run time: a tag is a
  string. The numeric settings are the integers that \<open>clampPositiveInteger\<close> returns,
  all positive; they are natural numbers here. \<open>tagVisibility\<close> is a plain object read
  by key: an entry that is not a boolean counts as absent.
\<close>

type_synonym AcpSessionUpdateTag = jsstring

record AcpProjectionSettings =
  deliveryMode :: AcpDeliveryMode
  hiddenBoundarySeparator :: AcpHiddenBoundarySeparator
  repeatSuppression :: bool
  maxTurnChars :: nat
  maxToolSummaryChars :: nat
  maxStatusChars :: nat
  maxMetaEventsPerTurn :: nat
  tagVisibility :: "AcpSessionUpdateTag \<rightharpoonup> bool"

definition ACP_TAG_VISIBILITY_DEFAULTS :: "(AcpSessionUpdateTag \<times> bool) list" where
  "ACP_TAG_VISIBILITY_DEFAULTS =
     [(js ''agent_message_chunk'', True),
      (js ''tool_call'', False),
      (js ''tool_call_update'', False),
      (js ''usage_update'', False),
      (js ''available_commands_update'', False),
      (js ''current_mode_update'', False),
      (js ''config_option_update'', False),
      (js ''session_info_update'', False),
      (js ''plan'', False),
      (js ''agent_thought_chunk'', False)]"

text \<open>
  A configuration value has the type \<open>unknown\<close>. \<open>JsNumber\<close> holds a finite number,
  \<open>JsNonFinite\<close> stands for \<open>NaN\<close> and the infinities.
\<close>

datatype jsvalue =
    JsUndefined
  | JsBoolean bool
  | JsNumber real
  | JsNonFinite
  | JsString jsstring
  | JsOther

definition DEFAULT_ACP_REPEAT_SUPPRESSION :: bool where
  "DEFAULT_ACP_REPEAT_SUPPRESSION = True"

definition DEFAULT_ACP_DELIVERY_MODE :: AcpDeliveryMode where
  "DEFAULT_ACP_DELIVERY_MODE = final_only"

definition DEFAULT_ACP_HIDDEN_BOUNDARY_SEPARATOR :: AcpHiddenBoundarySeparator where
  "DEFAULT_ACP_HIDDEN_BOUNDARY_SEPARATOR = sep_paragraph"

definition DEFAULT_ACP_HIDDEN_BOUNDARY_SEPARATOR_LIVE :: AcpHiddenBoundarySeparator where
  "DEFAULT_ACP_HIDDEN_BOUNDARY_SEPARATOR_LIVE = sep_space"

definition DEFAULT_ACP_MAX_TURN_CHARS :: int where
  "DEFAULT_ACP_MAX_TURN_CHARS = 24000"

definition DEFAULT_ACP_MAX_TOOL_SUMMARY_CHARS :: int where
  "DEFAULT_ACP_MAX_TOOL_SUMMARY_CHARS = 320"

definition DEFAULT_ACP_MAX_STATUS_CHARS :: int where
  "DEFAULT_ACP_MAX_STATUS_CHARS = 320"

definition DEFAULT_ACP_MAX_META_EVENTS_PER_TURN :: int where
  "DEFAULT_ACP_MAX_META_EVENTS_PER_TURN = 64"

text \<open>\<open>Math.round\<close> rounds to the nearest integer, a half upwards.\<close>

definition clampPositiveInteger :: "jsvalue \<Rightarrow> int \<Rightarrow> int \<Rightarrow> int \<Rightarrow> int" where
  "clampPositiveInteger val fallback lo hi =
     (case val of
        JsNumber x \<Rightarrow>
          (let rounded = \<lfloor>x + 1 / 2\<rfloor>
           in if rounded < lo then lo else if rounded > hi then hi else rounded)
      | _ \<Rightarrow> fallback)"

definition clampBoolean :: "jsvalue \<Rightarrow> bool \<Rightarrow> bool" where
  "clampBoolean val fallback = (case val of JsBoolean b \<Rightarrow> b | _ \<Rightarrow> fallback)"

definition resolveAcpDeliveryMode :: "jsvalue \<Rightarrow> AcpDeliveryMode" where
  "resolveAcpDeliveryMode val =
     (if val = JsString (js ''live'') then live
      else if val = JsString (js ''final_only'') then final_only
      else DEFAULT_ACP_DELIVERY_MODE)"

definition resolveAcpHiddenBoundarySeparator ::
  "jsvalue \<Rightarrow> AcpHiddenBoundarySeparator \<Rightarrow> AcpHiddenBoundarySeparator" where
  "resolveAcpHiddenBoundarySeparator val fallback =
     (if val = JsString (js ''none'') then sep_none
      else if val = JsString (js ''space'') then sep_space
      else if val = JsString (js ''newline'') then sep_newline
      else if val = JsString (js ''paragraph'') then sep_paragraph
      else fallback)"

text \<open>
  \<open>cfg.acp?.stream\<close>, with the fields that \<open>resolveAcpProjectionSettings\<close> reads. An
  absent object is the one whose fields are all \<open>undefined\<close>; \<open>tagVisibility\<close> holds
  the boolean entries of \<open>stream?.tagVisibility ?? {}\<close>.
\<close>

record AcpStreamConfig =
  cfg_deliveryMode :: jsvalue
  cfg_hiddenBoundarySeparator :: jsvalue
  cfg_repeatSuppression :: jsvalue
  cfg_maxTurnChars :: jsvalue
  cfg_maxToolSummaryChars :: jsvalue
  cfg_maxStatusChars :: jsvalue
  cfg_maxMetaEventsPerTurn :: jsvalue
  cfg_tagVisibility :: "AcpSessionUpdateTag \<rightharpoonup> bool"

definition resolveAcpProjectionSettings :: "AcpStreamConfig \<Rightarrow> AcpProjectionSettings" where
  "resolveAcpProjectionSettings stream =
     (let mode = resolveAcpDeliveryMode (cfg_deliveryMode stream);
          hiddenBoundaryFallback =
            (if mode = live then DEFAULT_ACP_HIDDEN_BOUNDARY_SEPARATOR_LIVE
             else DEFAULT_ACP_HIDDEN_BOUNDARY_SEPARATOR)
      in \<lparr> deliveryMode = mode,
           hiddenBoundarySeparator =
             resolveAcpHiddenBoundarySeparator (cfg_hiddenBoundarySeparator stream)
               hiddenBoundaryFallback,
           repeatSuppression =
             clampBoolean (cfg_repeatSuppression stream) DEFAULT_ACP_REPEAT_SUPPRESSION,
           maxTurnChars =
             nat (clampPositiveInteger (cfg_maxTurnChars stream) DEFAULT_ACP_MAX_TURN_CHARS
                    1 500000),
           maxToolSummaryChars =
             nat (clampPositiveInteger (cfg_maxToolSummaryChars stream)
                    DEFAULT_ACP_MAX_TOOL_SUMMARY_CHARS 64 8000),
           maxStatusChars =
             nat (clampPositiveInteger (cfg_maxStatusChars stream)
                    DEFAULT_ACP_MAX_STATUS_CHARS 64 8000),
           maxMetaEventsPerTurn =
             nat (clampPositiveInteger (cfg_maxMetaEventsPerTurn stream)
                    DEFAULT_ACP_MAX_META_EVENTS_PER_TURN 1 2000),
           tagVisibility = cfg_tagVisibility stream \<rparr>)"

definition isAcpTagVisible :: "AcpProjectionSettings \<Rightarrow> AcpSessionUpdateTag option \<Rightarrow> bool" where
  "isAcpTagVisible st tg =
     (case tg of
        None \<Rightarrow> True
      | Some t \<Rightarrow>
          if t = [] then True
          else (case tagVisibility st t of
                  Some override \<Rightarrow> override
                | None \<Rightarrow>
                    (case map_of ACP_TAG_VISIBILITY_DEFAULTS t of
                       Some d \<Rightarrow> d
                     | None \<Rightarrow> True)))"

section \<open>The reply projector (acp-projector)\<close>

subsection \<open>Constants and pure helpers\<close>

definition ACP_LIVE_IDLE_FLUSH_FLOOR_MS :: int where
  "ACP_LIVE_IDLE_FLUSH_FLOOR_MS = 750"

definition ACP_LIVE_IDLE_MIN_CHARS :: nat where
  "ACP_LIVE_IDLE_MIN_CHARS = 80"

definition ACP_LIVE_SOFT_FLUSH_CHARS :: nat where
  "ACP_LIVE_SOFT_FLUSH_CHARS = 220"

definition ACP_LIVE_HARD_FLUSH_CHARS :: nat where
  "ACP_LIVE_HARD_FLUSH_CHARS = 480"

definition TERMINAL_TOOL_STATUSES :: "jsstring list" where
  "TERMINAL_TOOL_STATUSES =
     [js ''completed'', js ''failed'', js ''cancelled'', js ''done'', js ''error'']"

definition HIDDEN_BOUNDARY_TAGS :: "AcpSessionUpdateTag list" where
  "HIDDEN_BOUNDARY_TAGS = [js ''tool_call'', js ''tool_call_update'']"

text \<open>The ellipsis appended by \<open>truncateText\<close> is the single code unit U+2026.\<close>

definition truncateText :: "jsstring \<Rightarrow> nat \<Rightarrow> jsstring" where
  "truncateText input maxChars =
     (if length input \<le> maxChars then input
      else if maxChars \<le> 1 then take maxChars input
      else take (maxChars - 1) input @ [8230])"

definition hashText :: "jsstring \<Rightarrow> jsstring" where
  "hashText t = trim t"

definition normalizeToolStatus :: "jsstring option \<Rightarrow> jsstring option" where
  "normalizeToolStatus st =
     (case st of
        None \<Rightarrow> None
      | Some s \<Rightarrow>
          if s = [] then None
          else let normalized = toLowerCase (trim s)
               in if normalized = [] then None else Some normalized)"

text \<open>\<open>status ? TERMINAL_TOOL_STATUSES.has(status) : false\<close>, on a normalized status.\<close>

definition isTerminalStatus :: "jsstring option \<Rightarrow> bool" where
  "isTerminalStatus status =
     (case status of None \<Rightarrow> False | Some st \<Rightarrow> st \<in> set TERMINAL_TOOL_STATUSES)"

definition resolveHiddenBoundarySeparatorText :: "AcpHiddenBoundarySeparator \<Rightarrow> jsstring" where
  "resolveHiddenBoundarySeparatorText m =
     (if m = sep_space then [32]
      else if m = sep_newline then [10]
      else if m = sep_paragraph then [10, 10]
      else [])"

definition shouldInsertSeparator :: "jsstring \<Rightarrow> jsstring option \<Rightarrow> jsstring \<Rightarrow> bool" where
  "shouldInsertSeparator separator previousTail nextText =
     (if separator = [] then False
      else case nextText of
        [] \<Rightarrow> False
      | firstChar # _ \<Rightarrow>
          if isWhiteSpace firstChar then False
          else let tail = (case previousTail of None \<Rightarrow> [] | Some t \<Rightarrow> t)
               in if tail = [] then False
                  else if separator = [32] \<and> isWhiteSpace (last tail) then False
                  else if (separator = [10] \<or> separator = [10, 10]) \<and> last tail = 10 then False
                  else True)"

text \<open>
  \<open>endsSentence t\<close>: the regular expression \<open>[.!?][)"'`]*$\<close> matches \<open>t\<close>, that is,
  \<open>t\<close> ends with one of \<open>. ! ?\<close> followed by any number of closing marks.
\<close>

definition isSentenceEnd :: "nat \<Rightarrow> bool" where
  "isSentenceEnd c \<longleftrightarrow> c = 46 \<or> c = 33 \<or> c = 63"

definition isClosingMark :: "nat \<Rightarrow> bool" where
  "isClosingMark c \<longleftrightarrow> c = 41 \<or> c = 34 \<or> c = 39 \<or> c = 96"

definition endsSentence :: "jsstring \<Rightarrow> bool" where
  "endsSentence t =
     (case dropWhile isClosingMark (rev t) of [] \<Rightarrow> False | c # _ \<Rightarrow> isSentenceEnd c)"

definition endsWithSpace :: "jsstring \<Rightarrow> bool" where
  "endsWithSpace t = (case rev t of [] \<Rightarrow> False | c # _ \<Rightarrow> isWhiteSpace c)"

definition shouldFlushLiveBufferOnBoundary :: "jsstring \<Rightarrow> bool" where
  "shouldFlushLiveBufferOnBoundary t =
     (if t = [] then False
      else if length t \<ge> ACP_LIVE_HARD_FLUSH_CHARS then True
      else if length t \<ge> 2 \<and> drop (length t - 2) t = [10, 10] then True
      else if endsWithSpace t \<and> endsSentence (butlast t) then True
      else if length t \<ge> ACP_LIVE_SOFT_FLUSH_CHARS \<and> endsWithSpace t then True
      else False)"

definition shouldFlushLiveBufferOnIdle :: "jsstring \<Rightarrow> bool" where
  "shouldFlushLiveBufferOnIdle t =
     (if t = [] then False
      else if length t \<ge> ACP_LIVE_IDLE_MIN_CHARS then True
      else if endsSentence (trimEnd t) then True
      else if 10 \<in> set t then True
      else False)"

subsection \<open>Events, deliveries and the calls to the collaborators\<close>

record ToolCallEvent =
  tc_tag :: "AcpSessionUpdateTag option"
  tc_toolCallId :: "jsstring option"
  tc_title :: "jsstring option"
  tc_status :: "jsstring option"
  tc_text :: "jsstring option"

text \<open>
  \<open>AcpRuntimeEvent\<close>, with the fields the projector reads: \<open>TextDelta stream tag text\<close>,
  \<open>Status tag text used size\<close> (\<open>used\<close> and \<open>size\<close> are \<open>None\<close> when they are not
  numbers), \<open>ToolCall\<close>, \<open>Done\<close> and \<open>Error\<close>.
\<close>

datatype AcpRuntimeEvent =
    TextDelta "jsstring option" "AcpSessionUpdateTag option" jsstring
  | Status "AcpSessionUpdateTag option" jsstring "int option" "int option"
  | ToolCall ToolCallEvent
  | Done
  | Error

record AcpProjectedDeliveryMeta =
  m_tag :: "AcpSessionUpdateTag option"
  m_toolCallId :: "jsstring option"
  m_toolStatus :: "jsstring option"
  m_allowEdit :: "bool option"

record ToolLifecycleState =
  started :: bool
  terminal :: bool
  lastRenderedHash :: "jsstring option"

text \<open>A \<open>BufferedToolDelivery\<close>: the text of the payload and the meta.\<close>

type_synonym BufferedToolDelivery = "jsstring \<times> AcpProjectedDeliveryMeta option"

datatype ReplyDispatchKind = kind_text | kind_tool | kind_block

text \<open>
  The chunker, the block reply pipeline, the delivery callback and the timers of the
  runtime are collaborators of the projector. Each call the projector makes to one of
  them is recorded, in order, in the field \<open>out\<close> of the state:
  \<open>params.deliver(kind, {text}, meta)\<close>, \<open>chunker.append(text)\<close>,
  \<open>chunker.drain({force, emit})\<close>, \<open>blockReplyPipeline.flush({force})\<close>,
  \<open>clearTimeout\<close> and \<open>setTimeout\<close>. The calls are taken to return normally.
\<close>

datatype action =
    Deliver ReplyDispatchKind jsstring "AcpProjectedDeliveryMeta option"
  | ChunkerAppend jsstring
  | ChunkerDrain bool
  | PipelineFlush bool
  | ClearTimeout
  | SetTimeout int

text \<open>
  The parameters of \<open>createAcpReplyProjector\<close>: the stream configuration in \<open>cfg\<close>, the
  flag \<open>shouldSendToolSummaries\<close>, and \<open>streaming.coalescing.idleMs\<close> as
  \<open>resolveAcpStreamingConfig\<close> gives it. Two functions of the repository that the
  projector imports are parameters as well: \<open>prefixSystemMessage\<close>, and
  \<open>formatToolSummary\<close>, which stands for
  \<open>formatToolSummary(resolveToolDisplay({name: "tool_call", meta}))\<close> as a function of
  \<open>meta\<close>.
\<close>

record Projector =
  cfg :: AcpStreamConfig
  shouldSendToolSummaries :: bool
  coalescingIdleMs :: int
  prefixSystemMessage :: "jsstring \<Rightarrow> jsstring"
  formatToolSummary :: "jsstring \<Rightarrow> jsstring"

definition settings :: "Projector \<Rightarrow> AcpProjectionSettings" where
  "settings P = resolveAcpProjectionSettings (cfg P)"

definition liveIdleFlushMs :: "Projector \<Rightarrow> int" where
  "liveIdleFlushMs P = max (coalescingIdleMs P) ACP_LIVE_IDLE_FLUSH_FLOOR_MS"

text \<open>
  The variables of the closure. \<open>liveIdleTimer\<close> says whether the timer handle is
  defined.
\<close>

record TurnState =
  emittedTurnChars :: nat
  emittedMetaEvents :: nat
  truncationNoticeEmitted :: bool
  lastStatusHash :: "jsstring option"
  lastToolHash :: "jsstring option"
  lastUsageTuple :: "jsstring option"
  lastVisibleOutputTail :: "jsstring option"
  pendingHiddenBoundary :: bool
  liveBufferText :: jsstring
  liveIdleTimer :: bool
  pendingToolDeliveries :: "BufferedToolDelivery list"
  toolLifecycleById :: "jsstring \<rightharpoonup> ToolLifecycleState"
  out :: "action list"

definition initialState :: TurnState where
  "initialState =
     \<lparr> emittedTurnChars = 0, emittedMetaEvents = 0, truncationNoticeEmitted = False,
       lastStatusHash = None, lastToolHash = None, lastUsageTuple = None,
       lastVisibleOutputTail = None, pendingHiddenBoundary = False, liveBufferText = [],
       liveIdleTimer = False, pendingToolDeliveries = [], toolLifecycleById = Map.empty,
       out = [] \<rparr>"

definition call :: "action \<Rightarrow> TurnState \<Rightarrow> TurnState" where
  "call a s = s\<lparr>out := out s @ [a]\<rparr>"

text \<open>\<open>x?.trim()\<close> when the result is truthy, \<open>undefined\<close> otherwise.\<close>

definition trimmedOrUndefined :: "jsstring option \<Rightarrow> jsstring option" where
  "trimmedOrUndefined x =
     (case x of
        None \<Rightarrow> None
      | Some t \<Rightarrow> (if trim t = [] then None else Some (trim t)))"

definition renderToolSummaryText :: "Projector \<Rightarrow> ToolCallEvent \<Rightarrow> jsstring" where
  "renderToolSummaryText P event =
     (let parts1 = (case trimmedOrUndefined (tc_title event) of
                      None \<Rightarrow> []
                    | Some title \<Rightarrow> [title]);
          parts2 = (case trimmedOrUndefined (tc_status event) of
                      None \<Rightarrow> parts1
                    | Some status \<Rightarrow> parts1 @ [js ''status='' @ status]);
          detailParts = (case trimmedOrUndefined (tc_text event) of
                           None \<Rightarrow> parts2
                         | Some fallback \<Rightarrow> (if parts2 = [] then [fallback] else parts2));
          joined = joinWith [32, 183, 32] detailParts;
          meta = (if joined = [] then js ''tool call'' else joined)
      in formatToolSummary P meta)"

subsection \<open>The operations of the closure\<close>

definition clearLiveIdleTimer :: "TurnState \<Rightarrow> TurnState" where
  "clearLiveIdleTimer s =
     (if \<not> liveIdleTimer s then s
      else (call ClearTimeout s)\<lparr>liveIdleTimer := False\<rparr>)"

definition drainChunker :: "Projector \<Rightarrow> bool \<Rightarrow> TurnState \<Rightarrow> TurnState" where
  "drainChunker P force s =
     (if deliveryMode (settings P) = final_only \<and> \<not> force then s
      else call (ChunkerDrain force) s)"

text \<open>\<open>flushLiveBuffer P force idle\<close>: \<open>force\<close> is \<open>opts?.force === true\<close>, \<open>idle\<close> is \<open>opts?.idle\<close>.\<close>

definition flushLiveBuffer :: "Projector \<Rightarrow> bool \<Rightarrow> bool \<Rightarrow> TurnState \<Rightarrow> TurnState" where
  "flushLiveBuffer P force idle s =
     (if deliveryMode (settings P) \<noteq> live then s
      else if liveBufferText s = [] then s
      else if idle \<and> \<not> shouldFlushLiveBufferOnIdle (liveBufferText s) then s
      else drainChunker P force
             (call (ChunkerAppend (liveBufferText s)) (s\<lparr>liveBufferText := []\<rparr>)))"

definition scheduleLiveIdleFlush :: "Projector \<Rightarrow> TurnState \<Rightarrow> TurnState" where
  "scheduleLiveIdleFlush P s =
     (if deliveryMode (settings P) \<noteq> live then s
      else if liveIdleFlushMs P \<le> 0 \<or> liveBufferText s = [] then s
      else (call (SetTimeout (liveIdleFlushMs P)) (clearLiveIdleTimer s))\<lparr>liveIdleTimer := True\<rparr>)"

text \<open>The callback given to \<open>setTimeout\<close> in \<open>scheduleLiveIdleFlush\<close>.\<close>

definition liveIdleTimerCallback :: "Projector \<Rightarrow> TurnState \<Rightarrow> TurnState" where
  "liveIdleTimerCallback P s =
     (let s1 = flushLiveBuffer P True True s
      in if liveBufferText s1 \<noteq> [] then scheduleLiveIdleFlush P s1 else s1)"

definition resetTurnState :: "TurnState \<Rightarrow> TurnState" where
  "resetTurnState s =
     (clearLiveIdleTimer s)
       \<lparr> emittedTurnChars := 0, emittedMetaEvents := 0, truncationNoticeEmitted := False,
         lastStatusHash := None, lastToolHash := None, lastUsageTuple := None,
         lastVisibleOutputTail := None, pendingHiddenBoundary := False, liveBufferText := [],
         pendingToolDeliveries := [], toolLifecycleById := Map.empty \<rparr>"

definition flushBufferedToolDeliveries :: "Projector \<Rightarrow> bool \<Rightarrow> TurnState \<Rightarrow> TurnState" where
  "flushBufferedToolDeliveries P force s =
     (if \<not> (deliveryMode (settings P) = final_only \<and> force) then s
      else s\<lparr> pendingToolDeliveries := [],
              out := out s @ map (\<lambda>entry. Deliver kind_tool (fst entry) (snd entry))
                                 (pendingToolDeliveries s) \<rparr>)"

definition flush :: "Projector \<Rightarrow> bool \<Rightarrow> TurnState \<Rightarrow> TurnState" where
  "flush P force s =
     (let s1 = (if deliveryMode (settings P) = live
                then flushLiveBuffer P True False (clearLiveIdleTimer s) else s);
          s2 = flushBufferedToolDeliveries P force s1;
          s3 = drainChunker P force s2
      in call (PipelineFlush force) s3)"

definition consumeMetaQuota :: "Projector \<Rightarrow> bool \<Rightarrow> TurnState \<Rightarrow> bool \<times> TurnState" where
  "consumeMetaQuota P force s =
     (if force then (True, s)
      else if emittedMetaEvents s \<ge> maxMetaEventsPerTurn (settings P) then (False, s)
      else (True, s\<lparr>emittedMetaEvents := emittedMetaEvents s + 1\<rparr>))"

text \<open>
  \<open>emitSystemStatus P text meta force dedupe\<close>: \<open>force\<close> is \<open>opts?.force === true\<close> and
  \<open>dedupe\<close> is \<open>opts?.dedupe !== false\<close>.
\<close>

definition emitSystemStatus ::
  "Projector \<Rightarrow> jsstring \<Rightarrow> AcpProjectedDeliveryMeta option \<Rightarrow> bool \<Rightarrow> bool \<Rightarrow> TurnState \<Rightarrow> TurnState" where
  "emitSystemStatus P text meta force dedupe s =
     (if \<not> shouldSendToolSummaries P then s
      else let bounded = truncateText (trim text) (maxStatusChars (settings P))
           in if bounded = [] then s
              else let formatted = prefixSystemMessage P bounded;
                       hash = hashText formatted;
                       shouldDedupe = (repeatSuppression (settings P) \<and> dedupe)
                   in if shouldDedupe \<and> lastStatusHash s = Some hash then s
                      else let (ok, s1) = consumeMetaQuota P force s
                           in if \<not> ok then s1
                              else (if deliveryMode (settings P) = final_only
                                    then s1\<lparr>pendingToolDeliveries :=
                                              pendingToolDeliveries s1 @ [(formatted, meta)]\<rparr>
                                    else call (Deliver kind_tool formatted meta) (flush P True s1))
                                     \<lparr>lastStatusHash := Some hash\<rparr>)"

text \<open>
  \<open>emitToolSummary\<close> in three parts: the values it computes from the event, the block
  \<open>if (settings.repeatSuppression) { ... }\<close>, and the delivery after that block.
\<close>

definition toolSummaryOf :: "Projector \<Rightarrow> ToolCallEvent \<Rightarrow> jsstring" where
  "toolSummaryOf P event =
     truncateText (renderToolSummaryText P event) (maxToolSummaryChars (settings P))"

definition toolCallIdOf :: "ToolCallEvent \<Rightarrow> jsstring option" where
  "toolCallIdOf event = trimmedOrUndefined (tc_toolCallId event)"

definition isStartOf :: "ToolCallEvent \<Rightarrow> bool" where
  "isStartOf event \<longleftrightarrow>
     normalizeToolStatus (tc_status event) = Some (js ''in_progress'')
     \<or> tc_tag event = Some (js ''tool_call'')"

text \<open>
  \<open>suppressRepeat\<close> is \<open>None\<close> where the block returns from \<open>emitToolSummary\<close>, and
  the state after the block otherwise.
\<close>

definition suppressRepeat :: "Projector \<Rightarrow> ToolCallEvent \<Rightarrow> TurnState \<Rightarrow> TurnState option" where
  "suppressRepeat P event s =
     (let hash = hashText (toolSummaryOf P event);
          isTerminal = isTerminalStatus (normalizeToolStatus (tc_status event));
          isStart = isStartOf event
      in if repeatSuppression (settings P) then
           (case toolCallIdOf event of
              Some toolCallId \<Rightarrow>
                let state = (case toolLifecycleById s toolCallId of
                               None \<Rightarrow> \<lparr>started = False, terminal = False,
                                         lastRenderedHash = None\<rparr>
                             | Some st \<Rightarrow> st)
                in if isTerminal \<and> terminal state then None
                   else if isStart \<and> started state then None
                   else if lastRenderedHash state = Some hash then None
                   else Some (s\<lparr>toolLifecycleById := (toolLifecycleById s)(toolCallId \<mapsto>
                           \<lparr>started = (isStart \<or> started state),
                            terminal = (isTerminal \<or> terminal state),
                            lastRenderedHash = Some hash\<rparr>)\<rparr>)
            | None \<Rightarrow> if lastToolHash s = Some hash then None else Some s)
         else Some s)"

definition deliverToolSummary :: "Projector \<Rightarrow> ToolCallEvent \<Rightarrow> bool \<Rightarrow> TurnState \<Rightarrow> TurnState" where
  "deliverToolSummary P event force s =
     (let (ok, s1) = consumeMetaQuota P force s
      in if \<not> ok then s1
         else
           let toolSummary = toolSummaryOf P event;
               toolCallId = toolCallIdOf event;
               deliveryMeta =
                 \<lparr> m_tag = (if truthy (tc_tag event) then tc_tag event else None),
                   m_toolCallId = toolCallId,
                   m_toolStatus = normalizeToolStatus (tc_status event),
                   m_allowEdit = Some (toolCallId \<noteq> None
                                       \<and> tc_tag event = Some (js ''tool_call_update'')) \<rparr>
           in (if deliveryMode (settings P) = final_only
               then s1\<lparr>pendingToolDeliveries :=
                         pendingToolDeliveries s1 @ [(toolSummary, Some deliveryMeta)]\<rparr>
               else call (Deliver kind_tool toolSummary (Some deliveryMeta)) (flush P True s1))
                \<lparr>lastToolHash := Some (hashText toolSummary)\<rparr>)"

definition emitToolSummary :: "Projector \<Rightarrow> ToolCallEvent \<Rightarrow> bool \<Rightarrow> TurnState \<Rightarrow> TurnState" where
  "emitToolSummary P event force s =
     (if \<not> shouldSendToolSummaries P then s
      else if \<not> isAcpTagVisible (settings P) (tc_tag event) then s
      else case suppressRepeat P event s of
             None \<Rightarrow> s
           | Some s0 \<Rightarrow> deliverToolSummary P event force s0)"

definition emitTruncationNotice :: "Projector \<Rightarrow> TurnState \<Rightarrow> TurnState" where
  "emitTruncationNotice P s =
     (if truncationNoticeEmitted s then s
      else emitSystemStatus P (js ''output truncated'')
             (Some \<lparr>m_tag = Some (js ''session_info_update''), m_toolCallId = None,
                     m_toolStatus = None, m_allowEdit = None\<rparr>)
             True False
             (s\<lparr>truncationNoticeEmitted := True\<rparr>))"

subsection \<open>onEvent\<close>

text \<open>
  The text of a projected fragment once the separator of a pending hidden boundary has
  been put in front of it (the first statement of the \<open>text_delta\<close> branch after its
  guards).
\<close>

definition withSeparator :: "Projector \<Rightarrow> TurnState \<Rightarrow> jsstring \<Rightarrow> jsstring" where
  "withSeparator P s text =
     (let separator = resolveHiddenBoundarySeparatorText (hiddenBoundarySeparator (settings P))
      in if pendingHiddenBoundary s
            \<and> shouldInsertSeparator separator (lastVisibleOutputTail s) text
         then separator @ text else text)"

text \<open>\<open>accepted\<close>: the part of the fragment that fits the remaining budget of the turn.\<close>

definition acceptedText :: "Projector \<Rightarrow> TurnState \<Rightarrow> jsstring \<Rightarrow> jsstring" where
  "acceptedText P s text =
     (let remaining = maxTurnChars (settings P) - emittedTurnChars s
      in if remaining < length text then take remaining text else text)"

text \<open>The body of \<open>if (accepted.length > 0)\<close>.\<close>

definition acceptVisibleText :: "Projector \<Rightarrow> jsstring \<Rightarrow> TurnState \<Rightarrow> TurnState" where
  "acceptVisibleText P accepted s =
     (let s1 = s\<lparr> emittedTurnChars := emittedTurnChars s + length accepted,
                  lastVisibleOutputTail := Some [last accepted] \<rparr>
      in if deliveryMode (settings P) = live
         then let s2 = s1\<lparr>liveBufferText := liveBufferText s1 @ accepted\<rparr>
              in if shouldFlushLiveBufferOnBoundary (liveBufferText s2)
                 then flushLiveBuffer P True False (clearLiveIdleTimer s2)
                 else scheduleLiveIdleFlush P s2
         else drainChunker P False (call (ChunkerAppend accepted) s1))"

definition onTextDelta ::
  "Projector \<Rightarrow> jsstring option \<Rightarrow> AcpSessionUpdateTag option \<Rightarrow> jsstring \<Rightarrow> TurnState \<Rightarrow> TurnState" where
  "onTextDelta P stream tg text0 s =
     (if truthy stream \<and> stream \<noteq> Some (js ''output'') then s
      else if \<not> isAcpTagVisible (settings P) tg then s
      else if text0 = [] then s
      else
        let text = withSeparator P s text0;
            s1 = s\<lparr>pendingHiddenBoundary := False\<rparr>
        in if emittedTurnChars s1 \<ge> maxTurnChars (settings P) then emitTruncationNotice P s1
           else
             let accepted = acceptedText P s1 text;
                 s2 = (if length accepted > 0 then acceptVisibleText P accepted s1 else s1)
             in if length accepted < length text then emitTruncationNotice P s2 else s2)"

definition onStatus ::
  "Projector \<Rightarrow> AcpSessionUpdateTag option \<Rightarrow> jsstring \<Rightarrow> int option \<Rightarrow> int option \<Rightarrow> TurnState \<Rightarrow> TurnState" where
  "onStatus P tg text used sz s =
     (if \<not> isAcpTagVisible (settings P) tg then s
      else
        let meta = (if truthy tg
                    then Some \<lparr>m_tag = tg, m_toolCallId = None, m_toolStatus = None,
                                m_allowEdit = None\<rparr>
                    else None)
        in if tg = Some (js ''usage_update'') \<and> repeatSuppression (settings P)
           then
             let usageTuple = (case (used, sz) of
                                 (Some u, Some z) \<Rightarrow> showInt u @ [47] @ showInt z
                               | _ \<Rightarrow> hashText text)
             in if Some usageTuple = lastUsageTuple s then s
                else emitSystemStatus P text meta False True (s\<lparr>lastUsageTuple := Some usageTuple\<rparr>)
           else emitSystemStatus P text meta False True s)"

definition onToolCall :: "Projector \<Rightarrow> ToolCallEvent \<Rightarrow> TurnState \<Rightarrow> TurnState" where
  "onToolCall P event s =
     (if \<not> isAcpTagVisible (settings P) (tc_tag event)
      then
        (if (case tc_tag event of
               None \<Rightarrow> False
             | Some t \<Rightarrow> t \<noteq> [] \<and> t \<in> set HIDDEN_BOUNDARY_TAGS)
         then
           let status = normalizeToolStatus (tc_status event);
               isTerminal = isTerminalStatus status
           in s\<lparr>pendingHiddenBoundary := (tc_tag event = Some (js ''tool_call'') \<or> isTerminal)\<rparr>
         else s)
      else emitToolSummary P event False s)"

fun onEvent :: "Projector \<Rightarrow> AcpRuntimeEvent \<Rightarrow> TurnState \<Rightarrow> TurnState" where
  "onEvent P (TextDelta stream tg text) s = onTextDelta P stream tg text s"
| "onEvent P (Status tg text used sz) s = onStatus P tg text used sz s"
| "onEvent P (ToolCall event) s = onToolCall P event s"
| "onEvent P Done s = resetTurnState (flush P True s)"
| "onEvent P Error s = resetTurnState (flush P True s)"

subsection \<open>What happens to a projector\<close>

text \<open>
  The host feeds events to \<open>onEvent\<close> and may call \<open>flush\<close>; between two of these the
  idle timer may expire, which runs its callback. A timer that has been cleared does not
  expire.
\<close>

datatype stimulus = Event AcpRuntimeEvent | FlushCall bool | IdleTimerExpired

fun stimulate :: "Projector \<Rightarrow> TurnState \<Rightarrow> stimulus \<Rightarrow> TurnState" where
  "stimulate P s (Event e) = onEvent P e s"
| "stimulate P s (FlushCall force) = flush P force s"
| "stimulate P s IdleTimerExpired = (if liveIdleTimer s then liveIdleTimerCallback P s else s)"

definition run :: "Projector \<Rightarrow> TurnState \<Rightarrow> stimulus list \<Rightarrow> TurnState" where
  "run P s xs = foldl (stimulate P) s xs"

fun endsTurn :: "stimulus \<Rightarrow> bool" where
  "endsTurn (Event Done) = True"
| "endsTurn (Event Error) = True"
| "endsTurn _ = False"

subsection \<open>What a projector has handed over\<close>

text \<open>
  The visible text accepted so far: what has been appended to the chunker, followed by
  what waits in the live buffer.
\<close>

fun appendedText :: "action list \<Rightarrow> jsstring" where
  "appendedText [] = []"
| "appendedText (ChunkerAppend t # as) = t @ appendedText as"
| "appendedText (_ # as) = appendedText as"

definition visibleText :: "TurnState \<Rightarrow> jsstring" where
  "visibleText s = appendedText (out s) @ liveBufferText s"

text \<open>
  The tool deliveries so far: those made through the delivery callback, followed by
  those queued in \<open>pendingToolDeliveries\<close>.
\<close>

fun toolDeliveries :: "action list \<Rightarrow> BufferedToolDelivery list" where
  "toolDeliveries [] = []"
| "toolDeliveries (Deliver k t m # as) =
     (if k = kind_tool then (t, m) # toolDeliveries as else toolDeliveries as)"
| "toolDeliveries (_ # as) = toolDeliveries as"

definition toolOutputs :: "TurnState \<Rightarrow> BufferedToolDelivery list" where
  "toolOutputs s = toolDeliveries (out s) @ pendingToolDeliveries s"

text \<open>
  \<open>statusDelivered P text force dedupe s\<close>: every guard of \<open>emitSystemStatus\<close> lets the
  call through, so that the status line is delivered (live mode) or queued (final-only
  mode).
\<close>

definition statusDelivered :: "Projector \<Rightarrow> jsstring \<Rightarrow> bool \<Rightarrow> bool \<Rightarrow> TurnState \<Rightarrow> bool" where
  "statusDelivered P t force dedupe s \<longleftrightarrow>
     shouldSendToolSummaries P \<and>
     truncateText (trim t) (maxStatusChars (settings P)) \<noteq> [] \<and>
     \<not> (repeatSuppression (settings P) \<and> dedupe \<and>
        lastStatusHash s = Some (hashText (prefixSystemMessage P
           (truncateText (trim t) (maxStatusChars (settings P)))))) \<and>
     (force \<or> emittedMetaEvents s < maxMetaEventsPerTurn (settings P))"

subsection \<open>Truncation, in the words of the specification\<close>

text \<open>
  \<open>projected P stream tag text\<close>: the fragment is visible text of the output stream, that
  is, it passes the three guards at the head of the \<open>text_delta\<close> branch.
\<close>

definition projected :: "Projector \<Rightarrow> jsstring option \<Rightarrow> AcpSessionUpdateTag option \<Rightarrow> jsstring \<Rightarrow> bool" where
  "projected P stream tg text \<longleftrightarrow>
     \<not> (truthy stream \<and> stream \<noteq> Some (js ''output'')) \<and>
     isAcpTagVisible (settings P) tg \<and> text \<noteq> []"

text \<open>
  Truncation occurs at a stimulus when it is a projected fragment and the remaining
  budget of the turn is smaller than the fragment, separator included. It occurs in a
  sequence of stimuli when it occurs at one of them.
\<close>

fun truncates :: "Projector \<Rightarrow> TurnState \<Rightarrow> stimulus \<Rightarrow> bool" where
  "truncates P s (Event (TextDelta stream tg text)) =
     (projected P stream tg text \<and>
      maxTurnChars (settings P) - emittedTurnChars s < length (withSeparator P s text))"
| "truncates P s _ = False"

fun truncationOccurs :: "Projector \<Rightarrow> TurnState \<Rightarrow> stimulus list \<Rightarrow> bool" where
  "truncationOccurs P s [] = False"
| "truncationOccurs P s (x # xs) = (truncates P s x \<or> truncationOccurs P (stimulate P s x) xs)"

text \<open>The "output truncated" notice: its payload and its meta.\<close>

definition truncationNotice :: "Projector \<Rightarrow> BufferedToolDelivery" where
  "truncationNotice P =
     (prefixSystemMessage P (js ''output truncated''),
      Some \<lparr>m_tag = Some (js ''session_info_update''), m_toolCallId = None,
             m_toolStatus = None, m_allowEdit = None\<rparr>)"

text \<open>
  A status event of the agent that would itself be rendered exactly as the notice: a
  session-info line whose bounded text gets the same prefixed form.
\<close>

fun mimicsNotice :: "Projector \<Rightarrow> stimulus \<Rightarrow> bool" where
  "mimicsNotice P (Event (Status tg text used sz)) =
     (tg = Some (js ''session_info_update'') \<and>
      prefixSystemMessage P (truncateText (trim text) (maxStatusChars (settings P))) =
        prefixSystemMessage P (js ''output truncated''))"
| "mimicsNotice P _ = False"

subsection \<open>Meta events and the lifecycle of a tool call\<close>

text \<open>The events that attempt a tool or status delivery without forcing it.\<close>

fun attemptsMetaDelivery :: "AcpRuntimeEvent \<Rightarrow> bool" where
  "attemptsMetaDelivery (Status tg text used sz) = True"
| "attemptsMetaDelivery (ToolCall event) = True"
| "attemptsMetaDelivery _ = False"

text \<open>\<open>toolLifecycleById[id].terminal\<close> is true.\<close>

definition terminalReached :: "TurnState \<Rightarrow> jsstring \<Rightarrow> bool" where
  "terminalReached s i = (case toolLifecycleById s i of None \<Rightarrow> False | Some st \<Rightarrow> terminal st)"

text \<open>The event carries a terminal status (completed, failed, cancelled, done, error).\<close>

definition hasTerminalStatus :: "ToolCallEvent \<Rightarrow> bool" where
  "hasTerminalStatus event = isTerminalStatus (normalizeToolStatus (tc_status event))"

text \<open>
  The entry of a tool call in the lifecycle map as \<open>emitToolSummary\<close> reads it:
  \<open>toolLifecycleById.get(toolCallId) ?? { started: false, terminal: false }\<close>.
\<close>

definition lifecycleOf :: "TurnState \<Rightarrow> jsstring \<Rightarrow> ToolLifecycleState" where
  "lifecycleOf s i =
     (case toolLifecycleById s i of
        None \<Rightarrow> \<lparr>started = False, terminal = False, lastRenderedHash = None\<rparr>
      | Some st \<Rightarrow> st)"

text \<open>Configurations and projectors to run the model on.\<close>

definition noConfig :: AcpStreamConfig where
  "noConfig =
     \<lparr> cfg_deliveryMode = JsUndefined, cfg_hiddenBoundarySeparator = JsUndefined,
       cfg_repeatSuppression = JsUndefined, cfg_maxTurnChars = JsUndefined,
       cfg_maxToolSummaryChars = JsUndefined, cfg_maxStatusChars = JsUndefined,
       cfg_maxMetaEventsPerTurn = JsUndefined, cfg_tagVisibility = Map.empty \<rparr>"

definition exampleConfig :: AcpStreamConfig where
  "exampleConfig =
     noConfig\<lparr> cfg_maxTurnChars := JsNumber 100,
               cfg_tagVisibility := [js ''tool_call_update'' \<mapsto> True] \<rparr>"

definition exampleProjector :: Projector where
  "exampleProjector =
     \<lparr> cfg = exampleConfig, shouldSendToolSummaries = True, coalescingIdleMs = 350,
       prefixSystemMessage = (\<lambda>t. js ''System: '' @ t),
       formatToolSummary = (\<lambda>m. js ''Tool Call: '' @ m) \<rparr>"

definition tightProjector :: Projector where
  "tightProjector =
     \<lparr> cfg = exampleConfig\<lparr> cfg_deliveryMode := JsString (js ''live''),
                              cfg_maxTurnChars := JsNumber 3,
                              cfg_maxMetaEventsPerTurn := JsNumber 1,
                              cfg_tagVisibility := [js ''tool_call'' \<mapsto> True,
                                                    js ''tool_call_update'' \<mapsto> True,
                                                    js ''plan'' \<mapsto> True] \<rparr>,
       shouldSendToolSummaries = True, coalescingIdleMs = 350,
       prefixSystemMessage = (\<lambda>t. js ''System: '' @ t),
       formatToolSummary = (\<lambda>m. js ''Tool Call: '' @ m) \<rparr>"

definition quietProjector :: Projector where
  "quietProjector = tightProjector\<lparr>shouldSendToolSummaries := False\<rparr>"

definition verboseProjector :: Projector where
  "verboseProjector =
     exampleProjector\<lparr>cfg := exampleConfig\<lparr>cfg_tagVisibility :=
       [js ''tool_call'' \<mapsto> True, js ''tool_call_update'' \<mapsto> True]\<rparr>\<rparr>"

definition infoProjector :: Projector where
  "infoProjector =
     exampleProjector\<lparr>cfg := exampleConfig\<lparr>cfg_tagVisibility :=
       [js ''session_info_update'' \<mapsto> True]\<rparr>\<rparr>"

definition repeatingProjector :: Projector where
  "repeatingProjector =
     exampleProjector\<lparr>cfg := exampleConfig\<lparr>cfg_repeatSuppression := JsBoolean False\<rparr>\<rparr>"

text \<open>A tool-call event with the given tag, id and status, and no title or text.\<close>

definition toolEvent :: "string \<Rightarrow> string \<Rightarrow> string \<Rightarrow> ToolCallEvent" where
  "toolEvent tg i st =
     \<lparr>tc_tag = Some (js tg), tc_toolCallId = Some (js i), tc_title = None,
      tc_status = Some (js st), tc_text = None\<rparr>"

text \<open>The meta of the delivery of such an event.\<close>

definition toolMeta :: "string \<Rightarrow> string \<Rightarrow> string \<Rightarrow> bool \<Rightarrow> AcpProjectedDeliveryMeta option" where
  "toolMeta tg i st edit =
     Some \<lparr>m_tag = Some (js tg), m_toolCallId = Some (js i), m_toolStatus = Some (js st),
            m_allowEdit = Some edit\<rparr>"

section \<open>Basic facts\<close>

lemma length_js [simp]: "length (js t) = length t"
  by (simp add: js_def)

lemma toolOutputs_queued: "out s = [] \<Longrightarrow> toolOutputs s = pendingToolDeliveries s"
  by (simp add: toolOutputs_def)

lemmas settings_eval = settings_def resolveAcpProjectionSettings_def clampPositiveInteger_def
  clampBoolean_def resolveAcpDeliveryMode_def resolveAcpHiddenBoundarySeparator_def
  DEFAULT_ACP_REPEAT_SUPPRESSION_def DEFAULT_ACP_DELIVERY_MODE_def
  DEFAULT_ACP_HIDDEN_BOUNDARY_SEPARATOR_def DEFAULT_ACP_HIDDEN_BOUNDARY_SEPARATOR_LIVE_def
  DEFAULT_ACP_MAX_TURN_CHARS_def DEFAULT_ACP_MAX_TOOL_SUMMARY_CHARS_def
  DEFAULT_ACP_MAX_STATUS_CHARS_def DEFAULT_ACP_MAX_META_EVENTS_PER_TURN_def
  noConfig_def exampleConfig_def

subsection \<open>Resolved settings are within their bounds\<close>

lemma clampPositiveInteger_bounds:
  assumes "lo \<le> fallback" and "fallback \<le> hi" and "lo \<le> hi"
  shows "lo \<le> clampPositiveInteger v fallback lo hi \<and> clampPositiveInteger v fallback lo hi \<le> hi"
  using assms by (cases v) (auto simp: clampPositiveInteger_def Let_def)

lemma clampPositiveInteger_nat_bounds:
  assumes "int lo \<le> fallback" and "fallback \<le> int hi" and "lo \<le> hi"
  shows "lo \<le> nat (clampPositiveInteger v fallback (int lo) (int hi)) \<and>
         nat (clampPositiveInteger v fallback (int lo) (int hi)) \<le> hi"
  using clampPositiveInteger_bounds [of "int lo" fallback "int hi" v] assms
  by linarith

lemma settings_bounds:
  "1 \<le> maxTurnChars (settings P) \<and> maxTurnChars (settings P) \<le> 500000 \<and>
   64 \<le> maxToolSummaryChars (settings P) \<and> maxToolSummaryChars (settings P) \<le> 8000 \<and>
   64 \<le> maxStatusChars (settings P) \<and> maxStatusChars (settings P) \<le> 8000 \<and>
   1 \<le> maxMetaEventsPerTurn (settings P) \<and> maxMetaEventsPerTurn (settings P) \<le> 2000"
proof -
  have a: "1 \<le> nat (clampPositiveInteger v DEFAULT_ACP_MAX_TURN_CHARS 1 500000) \<and>
      nat (clampPositiveInteger v DEFAULT_ACP_MAX_TURN_CHARS 1 500000) \<le> 500000" for v
    using clampPositiveInteger_nat_bounds [of 1 DEFAULT_ACP_MAX_TURN_CHARS 500000 v]
    by (simp add: DEFAULT_ACP_MAX_TURN_CHARS_def)
  have b: "64 \<le> nat (clampPositiveInteger v DEFAULT_ACP_MAX_TOOL_SUMMARY_CHARS 64 8000) \<and>
      nat (clampPositiveInteger v DEFAULT_ACP_MAX_TOOL_SUMMARY_CHARS 64 8000) \<le> 8000" for v
    using clampPositiveInteger_nat_bounds [of 64 DEFAULT_ACP_MAX_TOOL_SUMMARY_CHARS 8000 v]
    by (simp add: DEFAULT_ACP_MAX_TOOL_SUMMARY_CHARS_def)
  have c: "64 \<le> nat (clampPositiveInteger v DEFAULT_ACP_MAX_STATUS_CHARS 64 8000) \<and>
      nat (clampPositiveInteger v DEFAULT_ACP_MAX_STATUS_CHARS 64 8000) \<le> 8000" for v
    using clampPositiveInteger_nat_bounds [of 64 DEFAULT_ACP_MAX_STATUS_CHARS 8000 v]
    by (simp add: DEFAULT_ACP_MAX_STATUS_CHARS_def)
  have d: "1 \<le> nat (clampPositiveInteger v DEFAULT_ACP_MAX_META_EVENTS_PER_TURN 1 2000) \<and>
      nat (clampPositiveInteger v DEFAULT_ACP_MAX_META_EVENTS_PER_TURN 1 2000) \<le> 2000" for v
    using clampPositiveInteger_nat_bounds [of 1 DEFAULT_ACP_MAX_META_EVENTS_PER_TURN 2000 v]
    by (simp add: DEFAULT_ACP_MAX_META_EVENTS_PER_TURN_def)
  show ?thesis
    using a [of "cfg_maxTurnChars (cfg P)"] b [of "cfg_maxToolSummaryChars (cfg P)"]
      c [of "cfg_maxStatusChars (cfg P)"] d [of "cfg_maxMetaEventsPerTurn (cfg P)"]
    by (simp add: settings_def resolveAcpProjectionSettings_def Let_def)
qed

lemma appendedText_append [simp]: "appendedText (a @ b) = appendedText a @ appendedText b"
  by (induction a rule: appendedText.induct) auto

lemma toolDeliveries_append [simp]: "toolDeliveries (a @ b) = toolDeliveries a @ toolDeliveries b"
  by (induction a rule: toolDeliveries.induct) auto

lemma toolDeliveries_map_Deliver [simp]:
  "toolDeliveries (map (\<lambda>entry. Deliver kind_tool (fst entry) (snd entry)) xs) = xs"
  by (induction xs) auto

lemma appendedText_map_Deliver [simp]:
  "appendedText (map (\<lambda>entry. Deliver k (f entry) (g entry)) xs) = []"
  by (induction xs) auto

lemmas step_defs = clearLiveIdleTimer_def drainChunker_def flushLiveBuffer_def
  scheduleLiveIdleFlush_def flushBufferedToolDeliveries_def flush_def call_def

lemmas observe_defs = visibleText_def toolOutputs_def

lemma toolOutputs_update [simp]:
  "toolOutputs (s\<lparr>emittedTurnChars := a1\<rparr>) = toolOutputs s"
  "toolOutputs (s\<lparr>emittedMetaEvents := a2\<rparr>) = toolOutputs s"
  "toolOutputs (s\<lparr>truncationNoticeEmitted := a3\<rparr>) = toolOutputs s"
  "toolOutputs (s\<lparr>lastStatusHash := a4\<rparr>) = toolOutputs s"
  "toolOutputs (s\<lparr>lastToolHash := a5\<rparr>) = toolOutputs s"
  "toolOutputs (s\<lparr>lastUsageTuple := a6\<rparr>) = toolOutputs s"
  "toolOutputs (s\<lparr>lastVisibleOutputTail := a7\<rparr>) = toolOutputs s"
  "toolOutputs (s\<lparr>pendingHiddenBoundary := a8\<rparr>) = toolOutputs s"
  "toolOutputs (s\<lparr>liveBufferText := a9\<rparr>) = toolOutputs s"
  "toolOutputs (s\<lparr>liveIdleTimer := a10\<rparr>) = toolOutputs s"
  "toolOutputs (s\<lparr>toolLifecycleById := a11\<rparr>) = toolOutputs s"
  by (simp_all add: toolOutputs_def)

lemma visibleText_update [simp]:
  "visibleText (s\<lparr>emittedTurnChars := a1\<rparr>) = visibleText s"
  "visibleText (s\<lparr>emittedMetaEvents := a2\<rparr>) = visibleText s"
  "visibleText (s\<lparr>truncationNoticeEmitted := a3\<rparr>) = visibleText s"
  "visibleText (s\<lparr>lastStatusHash := a4\<rparr>) = visibleText s"
  "visibleText (s\<lparr>lastToolHash := a5\<rparr>) = visibleText s"
  "visibleText (s\<lparr>lastUsageTuple := a6\<rparr>) = visibleText s"
  "visibleText (s\<lparr>lastVisibleOutputTail := a7\<rparr>) = visibleText s"
  "visibleText (s\<lparr>pendingHiddenBoundary := a8\<rparr>) = visibleText s"
  "visibleText (s\<lparr>pendingToolDeliveries := a9\<rparr>) = visibleText s"
  "visibleText (s\<lparr>liveIdleTimer := a10\<rparr>) = visibleText s"
  "visibleText (s\<lparr>toolLifecycleById := a11\<rparr>) = visibleText s"
  by (simp_all add: visibleText_def)

subsection \<open>The effect of flush\<close>

lemma flush_frame [simp]:
  "emittedTurnChars (flush P f s) = emittedTurnChars s"
  "emittedMetaEvents (flush P f s) = emittedMetaEvents s"
  "truncationNoticeEmitted (flush P f s) = truncationNoticeEmitted s"
  "lastStatusHash (flush P f s) = lastStatusHash s"
  "lastToolHash (flush P f s) = lastToolHash s"
  "lastUsageTuple (flush P f s) = lastUsageTuple s"
  "lastVisibleOutputTail (flush P f s) = lastVisibleOutputTail s"
  "pendingHiddenBoundary (flush P f s) = pendingHiddenBoundary s"
  "toolLifecycleById (flush P f s) = toolLifecycleById s"
  by (simp_all add: step_defs Let_def)

lemma flush_effect [simp]:
  "liveBufferText (flush P f s) =
     (if deliveryMode (settings P) = live then [] else liveBufferText s)"
  "liveIdleTimer (flush P f s) =
     (if deliveryMode (settings P) = live then False else liveIdleTimer s)"
  "pendingToolDeliveries (flush P f s) =
     (if deliveryMode (settings P) = final_only \<and> f then [] else pendingToolDeliveries s)"
  "toolDeliveries (out (flush P f s)) =
     toolDeliveries (out s) @
       (if deliveryMode (settings P) = final_only \<and> f then pendingToolDeliveries s else [])"
  "appendedText (out (flush P f s)) =
     appendedText (out s) @ (if deliveryMode (settings P) = live then liveBufferText s else [])"
  by (simp_all add: step_defs Let_def)

subsection \<open>The effect of emitSystemStatus\<close>

lemma consumeMetaQuota_cases:
  "consumeMetaQuota P force s =
     (force \<or> emittedMetaEvents s < maxMetaEventsPerTurn (settings P),
      if \<not> force \<and> emittedMetaEvents s < maxMetaEventsPerTurn (settings P)
      then s\<lparr>emittedMetaEvents := emittedMetaEvents s + 1\<rparr> else s)"
  by (auto simp: consumeMetaQuota_def)

lemma emitSystemStatus_frame [simp]:
  "emittedTurnChars (emitSystemStatus P t m f d s) = emittedTurnChars s"
  "truncationNoticeEmitted (emitSystemStatus P t m f d s) = truncationNoticeEmitted s"
  "lastToolHash (emitSystemStatus P t m f d s) = lastToolHash s"
  "lastUsageTuple (emitSystemStatus P t m f d s) = lastUsageTuple s"
  "lastVisibleOutputTail (emitSystemStatus P t m f d s) = lastVisibleOutputTail s"
  "pendingHiddenBoundary (emitSystemStatus P t m f d s) = pendingHiddenBoundary s"
  "toolLifecycleById (emitSystemStatus P t m f d s) = toolLifecycleById s"
  "visibleText (emitSystemStatus P t m f d s) = visibleText s"
  by (simp_all add: emitSystemStatus_def consumeMetaQuota_cases Let_def call_def visibleText_def)

lemma emitSystemStatus_not_delivered:
  "\<not> statusDelivered P t f d s \<Longrightarrow> emitSystemStatus P t m f d s = s"
  by (auto simp: emitSystemStatus_def statusDelivered_def consumeMetaQuota_cases Let_def)

lemma emitSystemStatus_delivered:
  assumes "statusDelivered P t f d s"
  shows "mset (toolOutputs (emitSystemStatus P t m f d s)) =
           mset (toolOutputs s) +
           {#(prefixSystemMessage P (truncateText (trim t) (maxStatusChars (settings P))), m)#}"
    and "emittedMetaEvents (emitSystemStatus P t m f d s) =
           emittedMetaEvents s + (if f then 0 else 1)"
  using assms
  by (auto simp: emitSystemStatus_def statusDelivered_def consumeMetaQuota_cases Let_def
      call_def toolOutputs_def)

subsection \<open>The effect of emitTruncationNotice\<close>

lemma emitTruncationNotice_frame [simp]:
  "emittedTurnChars (emitTruncationNotice P s) = emittedTurnChars s"
  "lastToolHash (emitTruncationNotice P s) = lastToolHash s"
  "lastUsageTuple (emitTruncationNotice P s) = lastUsageTuple s"
  "lastVisibleOutputTail (emitTruncationNotice P s) = lastVisibleOutputTail s"
  "pendingHiddenBoundary (emitTruncationNotice P s) = pendingHiddenBoundary s"
  "toolLifecycleById (emitTruncationNotice P s) = toolLifecycleById s"
  "visibleText (emitTruncationNotice P s) = visibleText s"
  "truncationNoticeEmitted (emitTruncationNotice P s)"
  by (simp_all add: emitTruncationNotice_def)

lemma emitTruncationNotice_meta [simp]:
  "emittedMetaEvents (emitTruncationNotice P s) = emittedMetaEvents s"
proof (cases "statusDelivered P (js ''output truncated'') True False (s\<lparr>truncationNoticeEmitted := True\<rparr>)")
  case True
  then show ?thesis
    by (simp add: emitTruncationNotice_def emitSystemStatus_delivered(2))
next
  case False
  then show ?thesis
    by (simp add: emitTruncationNotice_def emitSystemStatus_not_delivered)
qed

subsection \<open>The effect of emitToolSummary\<close>

lemma suppressRepeat_Some:
  assumes "suppressRepeat P e s = Some s0"
  shows "emittedTurnChars s0 = emittedTurnChars s \<and> emittedMetaEvents s0 = emittedMetaEvents s \<and>
         truncationNoticeEmitted s0 = truncationNoticeEmitted s \<and>
         lastStatusHash s0 = lastStatusHash s \<and> lastToolHash s0 = lastToolHash s \<and>
         lastUsageTuple s0 = lastUsageTuple s \<and>
         lastVisibleOutputTail s0 = lastVisibleOutputTail s \<and>
         pendingHiddenBoundary s0 = pendingHiddenBoundary s \<and>
         liveBufferText s0 = liveBufferText s \<and> liveIdleTimer s0 = liveIdleTimer s \<and>
         pendingToolDeliveries s0 = pendingToolDeliveries s \<and> out s0 = out s \<and>
         visibleText s0 = visibleText s \<and> toolOutputs s0 = toolOutputs s"
  using assms
  by (auto simp: suppressRepeat_def Let_def observe_defs split: if_splits option.splits)

lemma deliverToolSummary_frame [simp]:
  "emittedTurnChars (deliverToolSummary P e f s) = emittedTurnChars s"
  "truncationNoticeEmitted (deliverToolSummary P e f s) = truncationNoticeEmitted s"
  "lastStatusHash (deliverToolSummary P e f s) = lastStatusHash s"
  "lastUsageTuple (deliverToolSummary P e f s) = lastUsageTuple s"
  "lastVisibleOutputTail (deliverToolSummary P e f s) = lastVisibleOutputTail s"
  "pendingHiddenBoundary (deliverToolSummary P e f s) = pendingHiddenBoundary s"
  "toolLifecycleById (deliverToolSummary P e f s) = toolLifecycleById s"
  "visibleText (deliverToolSummary P e f s) = visibleText s"
  by (simp_all add: deliverToolSummary_def consumeMetaQuota_cases Let_def call_def visibleText_def)

lemma emitToolSummary_frame [simp]:
  "emittedTurnChars (emitToolSummary P e f s) = emittedTurnChars s"
  "truncationNoticeEmitted (emitToolSummary P e f s) = truncationNoticeEmitted s"
  "lastStatusHash (emitToolSummary P e f s) = lastStatusHash s"
  "lastUsageTuple (emitToolSummary P e f s) = lastUsageTuple s"
  "lastVisibleOutputTail (emitToolSummary P e f s) = lastVisibleOutputTail s"
  "pendingHiddenBoundary (emitToolSummary P e f s) = pendingHiddenBoundary s"
  "visibleText (emitToolSummary P e f s) = visibleText s"
  by (auto simp: emitToolSummary_def split: option.splits dest!: suppressRepeat_Some)

lemma emitToolSummary_silent:
  "\<not> shouldSendToolSummaries P \<Longrightarrow> emitToolSummary P e f s = s"
  by (simp add: emitToolSummary_def)

lemma deliverToolSummary_meta_le:
  "emittedMetaEvents s \<le> maxMetaEventsPerTurn (settings P) \<Longrightarrow>
   emittedMetaEvents (deliverToolSummary P e False s) \<le> maxMetaEventsPerTurn (settings P)"
  by (simp add: deliverToolSummary_def consumeMetaQuota_cases Let_def call_def)

lemma emitToolSummary_meta_le:
  "emittedMetaEvents s \<le> maxMetaEventsPerTurn (settings P) \<Longrightarrow>
   emittedMetaEvents (emitToolSummary P e False s) \<le> maxMetaEventsPerTurn (settings P)"
  by (auto simp: emitToolSummary_def deliverToolSummary_meta_le split: option.splits
      dest!: suppressRepeat_Some)

lemma deliverToolSummary_exhausted:
  "maxMetaEventsPerTurn (settings P) \<le> emittedMetaEvents s \<Longrightarrow>
   deliverToolSummary P e False s = s"
  by (simp add: deliverToolSummary_def consumeMetaQuota_cases)

lemma emitToolSummary_exhausted:
  assumes "maxMetaEventsPerTurn (settings P) \<le> emittedMetaEvents s"
  shows "out (emitToolSummary P e False s) = out s \<and>
         pendingToolDeliveries (emitToolSummary P e False s) = pendingToolDeliveries s \<and>
         emittedMetaEvents (emitToolSummary P e False s) = emittedMetaEvents s"
  using assms
  by (auto simp: emitToolSummary_def deliverToolSummary_exhausted split: option.splits
      dest!: suppressRepeat_Some)

lemma deliverToolSummary_accounting:
  "length (toolOutputs (deliverToolSummary P e False s)) + emittedMetaEvents s =
   length (toolOutputs s) + emittedMetaEvents (deliverToolSummary P e False s)"
  by (simp add: deliverToolSummary_def consumeMetaQuota_cases Let_def call_def toolOutputs_def)

lemma emitToolSummary_accounting:
  "length (toolOutputs (emitToolSummary P e False s)) + emittedMetaEvents s =
   length (toolOutputs s) + emittedMetaEvents (emitToolSummary P e False s)"
proof (cases "suppressRepeat P e s")
  case None
  then show ?thesis by (simp add: emitToolSummary_def)
next
  case (Some s0)
  from suppressRepeat_Some [OF Some] deliverToolSummary_accounting [of P e s0]
  show ?thesis by (simp add: emitToolSummary_def Some)
qed

lemma deliverToolSummary_count:
  assumes "snd d = None \<or> m_allowEdit (the (snd d)) = None"
  shows "count (mset (toolOutputs (deliverToolSummary P e f s))) d = count (mset (toolOutputs s)) d"
  using assms
  by (cases d) (auto simp add: deliverToolSummary_def consumeMetaQuota_cases Let_def call_def
      toolOutputs_def)

lemma emitToolSummary_count:
  assumes "snd d = None \<or> m_allowEdit (the (snd d)) = None"
  shows "count (mset (toolOutputs (emitToolSummary P e f s))) d = count (mset (toolOutputs s)) d"
proof (cases "suppressRepeat P e s")
  case None
  then show ?thesis by (simp add: emitToolSummary_def)
next
  case (Some s0)
  from suppressRepeat_Some [OF Some] deliverToolSummary_count [OF assms, of P e f s0]
  show ?thesis by (simp add: emitToolSummary_def Some)
qed

subsection \<open>The text branch of onEvent\<close>

lemma clearLiveIdleTimer_effect [simp]:
  "emittedTurnChars (clearLiveIdleTimer s) = emittedTurnChars s"
  "emittedMetaEvents (clearLiveIdleTimer s) = emittedMetaEvents s"
  "truncationNoticeEmitted (clearLiveIdleTimer s) = truncationNoticeEmitted s"
  "pendingHiddenBoundary (clearLiveIdleTimer s) = pendingHiddenBoundary s"
  "toolLifecycleById (clearLiveIdleTimer s) = toolLifecycleById s"
  "pendingToolDeliveries (clearLiveIdleTimer s) = pendingToolDeliveries s"
  "liveBufferText (clearLiveIdleTimer s) = liveBufferText s"
  "liveIdleTimer (clearLiveIdleTimer s) = False"
  "toolDeliveries (out (clearLiveIdleTimer s)) = toolDeliveries (out s)"
  "appendedText (out (clearLiveIdleTimer s)) = appendedText (out s)"
  by (simp_all add: step_defs)

lemma acceptVisibleText_frame [simp]:
  "emittedTurnChars (acceptVisibleText P a s) = emittedTurnChars s + length a"
  "emittedMetaEvents (acceptVisibleText P a s) = emittedMetaEvents s"
  "truncationNoticeEmitted (acceptVisibleText P a s) = truncationNoticeEmitted s"
  "pendingHiddenBoundary (acceptVisibleText P a s) = pendingHiddenBoundary s"
  "toolLifecycleById (acceptVisibleText P a s) = toolLifecycleById s"
  "pendingToolDeliveries (acceptVisibleText P a s) = pendingToolDeliveries s"
  "toolDeliveries (out (acceptVisibleText P a s)) = toolDeliveries (out s)"
  "toolOutputs (acceptVisibleText P a s) = toolOutputs s"
  by (simp_all add: acceptVisibleText_def step_defs Let_def toolOutputs_def)

lemma acceptVisibleText_visibleText:
  "visibleText (acceptVisibleText P a s) =
     (if deliveryMode (settings P) = live then visibleText s @ a
      else appendedText (out s) @ a @ liveBufferText s)"
  by (simp add: acceptVisibleText_def step_defs Let_def visibleText_def)

lemma acceptVisibleText_length [simp]:
  "length (visibleText (acceptVisibleText P a s)) = length (visibleText s) + length a"
  by (simp add: acceptVisibleText_visibleText) (simp add: visibleText_def)

lemma acceptedText_length:
  "emittedTurnChars s \<le> maxTurnChars (settings P) \<Longrightarrow>
   emittedTurnChars s + length (acceptedText P s t) \<le> maxTurnChars (settings P)"
  by (auto simp: acceptedText_def Let_def)

lemma acceptedText_update [simp]:
  "acceptedText P (s\<lparr>pendingHiddenBoundary := b\<rparr>) t = acceptedText P s t"
  by (simp add: acceptedText_def)

lemma onTextDelta_frame [simp]:
  "emittedMetaEvents (onTextDelta P st tg t s) = emittedMetaEvents s"
  "toolLifecycleById (onTextDelta P st tg t s) = toolLifecycleById s"
  by (simp_all add: onTextDelta_def Let_def)

lemma onTextDelta_chars_le:
  "emittedTurnChars s \<le> maxTurnChars (settings P) \<Longrightarrow>
   emittedTurnChars (onTextDelta P st tg t s) \<le> maxTurnChars (settings P)"
  using acceptedText_length [of s P "withSeparator P s t"]
  by (simp add: onTextDelta_def Let_def)

lemma onTextDelta_accounting:
  "length (visibleText (onTextDelta P st tg t s)) + emittedTurnChars s =
   length (visibleText s) + emittedTurnChars (onTextDelta P st tg t s)"
  by (simp add: onTextDelta_def Let_def)

subsection \<open>The other branches, the timer and the reset\<close>

lemma onStatus_frame [simp]:
  "emittedTurnChars (onStatus P tg t u z s) = emittedTurnChars s"
  "truncationNoticeEmitted (onStatus P tg t u z s) = truncationNoticeEmitted s"
  "pendingHiddenBoundary (onStatus P tg t u z s) = pendingHiddenBoundary s"
  "toolLifecycleById (onStatus P tg t u z s) = toolLifecycleById s"
  "visibleText (onStatus P tg t u z s) = visibleText s"
  by (simp_all add: onStatus_def Let_def)

lemma onToolCall_frame [simp]:
  "emittedTurnChars (onToolCall P e s) = emittedTurnChars s"
  "truncationNoticeEmitted (onToolCall P e s) = truncationNoticeEmitted s"
  "visibleText (onToolCall P e s) = visibleText s"
  by (simp_all add: onToolCall_def Let_def)

lemma liveIdleTimerCallback_frame [simp]:
  "emittedTurnChars (liveIdleTimerCallback P s) = emittedTurnChars s"
  "emittedMetaEvents (liveIdleTimerCallback P s) = emittedMetaEvents s"
  "truncationNoticeEmitted (liveIdleTimerCallback P s) = truncationNoticeEmitted s"
  "pendingHiddenBoundary (liveIdleTimerCallback P s) = pendingHiddenBoundary s"
  "toolLifecycleById (liveIdleTimerCallback P s) = toolLifecycleById s"
  "pendingToolDeliveries (liveIdleTimerCallback P s) = pendingToolDeliveries s"
  "toolDeliveries (out (liveIdleTimerCallback P s)) = toolDeliveries (out s)"
  "visibleText (liveIdleTimerCallback P s) = visibleText s"
  "toolOutputs (liveIdleTimerCallback P s) = toolOutputs s"
  by (simp_all add: liveIdleTimerCallback_def step_defs Let_def observe_defs)

lemma flush_observed [simp]:
  "visibleText (flush P f s) = visibleText s"
  "toolOutputs (flush P f s) = toolOutputs s"
  by (simp_all add: observe_defs)

lemma resetTurnState_effect [simp]:
  "toolDeliveries (out (resetTurnState s)) = toolDeliveries (out s)"
  "appendedText (out (resetTurnState s)) = appendedText (out s)"
  "emittedTurnChars (resetTurnState s) = 0"
  "emittedMetaEvents (resetTurnState s) = 0"
  by (simp_all add: resetTurnState_def)

subsection \<open>Runs\<close>

lemma run_Nil [simp]: "run P s [] = s"
  by (simp add: run_def)

lemma run_Cons [simp]: "run P s (x # xs) = run P (stimulate P s x) xs"
  by (simp add: run_def)

lemma run_snoc [simp]: "run P s (xs @ [x]) = stimulate P (run P s xs) x"
  by (simp add: run_def)

subsection \<open>Accounting of characters\<close>

lemma stimulate_chars_le:
  assumes "emittedTurnChars s \<le> maxTurnChars (settings P)"
  shows "emittedTurnChars (stimulate P s x) \<le> maxTurnChars (settings P)"
proof (cases x)
  case (Event e)
  with assms show ?thesis
    by (cases e) (simp_all add: onTextDelta_chars_le)
next
  case (FlushCall f)
  with assms show ?thesis by simp
next
  case IdleTimerExpired
  with assms show ?thesis by simp
qed

lemma run_chars_le:
  "emittedTurnChars s \<le> maxTurnChars (settings P) \<Longrightarrow>
   emittedTurnChars (run P s xs) \<le> maxTurnChars (settings P)"
  by (induction xs rule: rev_induct) (simp_all add: stimulate_chars_le)

lemma stimulate_accounting:
  assumes "\<not> endsTurn x"
  shows "length (visibleText (stimulate P s x)) + emittedTurnChars s =
         length (visibleText s) + emittedTurnChars (stimulate P s x)"
proof (cases x)
  case (Event e)
  with assms show ?thesis
    by (cases e) (simp_all add: onTextDelta_accounting)
next
  case (FlushCall f)
  then show ?thesis by simp
next
  case IdleTimerExpired
  then show ?thesis by simp
qed

lemma run_accounting:
  "\<forall>x\<in>set xs. \<not> endsTurn x \<Longrightarrow>
   length (visibleText (run P s xs)) + emittedTurnChars s =
   length (visibleText s) + emittedTurnChars (run P s xs)"
proof (induction xs arbitrary: s)
  case Nil
  then show ?case by simp
next
  case (Cons x xs)
  from Cons.prems have "\<not> endsTurn x" and rest: "\<forall>y\<in>set xs. \<not> endsTurn y"
    by simp_all
  from stimulate_accounting [OF \<open>\<not> endsTurn x\<close>, of P s] Cons.IH [OF rest, of "stimulate P s x"]
  show ?case by simp
qed

lemma onTextDelta_sliced:
  assumes "projected P st tg t"
    and "emittedTurnChars s \<le> maxTurnChars (settings P)"
    and "maxTurnChars (settings P) - emittedTurnChars s < length (withSeparator P s t)"
  shows "emittedTurnChars (onTextDelta P st tg t s) = maxTurnChars (settings P)"
    and "deliveryMode (settings P) = live \<or> liveBufferText s = [] \<Longrightarrow>
         visibleText (onTextDelta P st tg t s) =
           visibleText s @ take (maxTurnChars (settings P) - emittedTurnChars s)
                               (withSeparator P s t)"
proof -
  from assms show "emittedTurnChars (onTextDelta P st tg t s) = maxTurnChars (settings P)"
    by (auto simp: onTextDelta_def projected_def Let_def acceptedText_def)
next
  assume mode: "deliveryMode (settings P) = live \<or> liveBufferText s = []"
  have unchanged: "visibleText (s\<lparr>pendingHiddenBoundary := False\<rparr>) = visibleText s"
    by simp
  show "visibleText (onTextDelta P st tg t s) =
          visibleText s @ take (maxTurnChars (settings P) - emittedTurnChars s)
                              (withSeparator P s t)"
  proof (cases "maxTurnChars (settings P) \<le> emittedTurnChars s")
    case True
    with assms show ?thesis
      by (simp add: onTextDelta_def projected_def Let_def)
  next
    case False
    let ?a = "take (maxTurnChars (settings P) - emittedTurnChars s) (withSeparator P s t)"
    from False assms have step: "onTextDelta P st tg t s =
        emitTruncationNotice P (acceptVisibleText P ?a (s\<lparr>pendingHiddenBoundary := False\<rparr>))"
      by (auto simp: onTextDelta_def projected_def Let_def acceptedText_def)
    have "visibleText (acceptVisibleText P ?a (s\<lparr>pendingHiddenBoundary := False\<rparr>)) =
        visibleText s @ ?a"
      using mode by (auto simp: acceptVisibleText_visibleText) (simp_all add: visibleText_def)
    then show ?thesis
      by (simp add: step)
  qed
qed


subsection \<open>Separators\<close>



subsection \<open>Accounting of meta events\<close>

lemma emitSystemStatus_exhausted:
  "maxMetaEventsPerTurn (settings P) \<le> emittedMetaEvents s \<Longrightarrow>
   emitSystemStatus P t m False d s = s"
  by (rule emitSystemStatus_not_delivered) (simp add: statusDelivered_def)

lemma emitSystemStatus_accounting:
  "length (toolOutputs (emitSystemStatus P t m False d s)) + emittedMetaEvents s =
   length (toolOutputs s) + emittedMetaEvents (emitSystemStatus P t m False d s)"
proof (cases "statusDelivered P t False d s")
  case True
  from emitSystemStatus_delivered(1) [OF True, of m]
  have "size (mset (toolOutputs (emitSystemStatus P t m False d s))) =
      size (mset (toolOutputs s)) + 1"
    by simp
  with emitSystemStatus_delivered(2) [OF True, of m] show ?thesis
    by simp
next
  case False
  then show ?thesis
    by (simp add: emitSystemStatus_not_delivered)
qed

lemma emitSystemStatus_meta_le:
  assumes "emittedMetaEvents s \<le> maxMetaEventsPerTurn (settings P)"
  shows "emittedMetaEvents (emitSystemStatus P t m False d s) \<le> maxMetaEventsPerTurn (settings P)"
proof (cases "statusDelivered P t False d s")
  case True
  then have "emittedMetaEvents s < maxMetaEventsPerTurn (settings P)"
    by (simp add: statusDelivered_def)
  with emitSystemStatus_delivered(2) [OF True, of m] show ?thesis
    by simp
next
  case False
  with assms show ?thesis
    by (simp add: emitSystemStatus_not_delivered)
qed

lemma onStatus_meta_le:
  "emittedMetaEvents s \<le> maxMetaEventsPerTurn (settings P) \<Longrightarrow>
   emittedMetaEvents (onStatus P tg t u z s) \<le> maxMetaEventsPerTurn (settings P)"
  by (simp add: onStatus_def Let_def emitSystemStatus_meta_le)

lemma onStatus_accounting:
  "length (toolOutputs (onStatus P tg t u z s)) + emittedMetaEvents s =
   length (toolOutputs s) + emittedMetaEvents (onStatus P tg t u z s)"
proof -
  have "length (toolOutputs (emitSystemStatus P t m False d (s\<lparr>lastUsageTuple := v\<rparr>)))
        + emittedMetaEvents s =
      length (toolOutputs s) + emittedMetaEvents (emitSystemStatus P t m False d (s\<lparr>lastUsageTuple := v\<rparr>))"
    for m d v
    using emitSystemStatus_accounting [of P t m d "s\<lparr>lastUsageTuple := v\<rparr>"] by simp
  then show ?thesis
    by (simp add: onStatus_def Let_def emitSystemStatus_accounting)
qed

lemma onStatus_exhausted:
  assumes "maxMetaEventsPerTurn (settings P) \<le> emittedMetaEvents s"
  shows "out (onStatus P tg t u z s) = out s \<and>
         pendingToolDeliveries (onStatus P tg t u z s) = pendingToolDeliveries s \<and>
         emittedMetaEvents (onStatus P tg t u z s) = emittedMetaEvents s"
  using assms by (simp add: onStatus_def Let_def emitSystemStatus_exhausted)

lemma onToolCall_meta_le:
  "emittedMetaEvents s \<le> maxMetaEventsPerTurn (settings P) \<Longrightarrow>
   emittedMetaEvents (onToolCall P e s) \<le> maxMetaEventsPerTurn (settings P)"
  by (simp add: onToolCall_def Let_def emitToolSummary_meta_le)

lemma onToolCall_accounting:
  "length (toolOutputs (onToolCall P e s)) + emittedMetaEvents s =
   length (toolOutputs s) + emittedMetaEvents (onToolCall P e s)"
  by (simp add: onToolCall_def Let_def emitToolSummary_accounting)

lemma onToolCall_exhausted:
  assumes "maxMetaEventsPerTurn (settings P) \<le> emittedMetaEvents s"
  shows "out (onToolCall P e s) = out s \<and>
         pendingToolDeliveries (onToolCall P e s) = pendingToolDeliveries s \<and>
         emittedMetaEvents (onToolCall P e s) = emittedMetaEvents s"
  using assms emitToolSummary_exhausted [OF assms, of e]
  by (simp add: onToolCall_def Let_def)

lemma stimulate_meta_le:
  assumes "emittedMetaEvents s \<le> maxMetaEventsPerTurn (settings P)"
  shows "emittedMetaEvents (stimulate P s x) \<le> maxMetaEventsPerTurn (settings P)"
proof (cases x)
  case (Event e)
  with assms show ?thesis
    by (cases e) (simp_all add: onStatus_meta_le onToolCall_meta_le)
next
  case (FlushCall f)
  with assms show ?thesis by simp
next
  case IdleTimerExpired
  with assms show ?thesis by simp
qed

lemma run_meta_le:
  "emittedMetaEvents s \<le> maxMetaEventsPerTurn (settings P) \<Longrightarrow>
   emittedMetaEvents (run P s xs) \<le> maxMetaEventsPerTurn (settings P)"
  by (induction xs rule: rev_induct) (simp_all add: stimulate_meta_le)

lemmas eval_defs = onTextDelta_def onStatus_def onToolCall_def emitSystemStatus_def
  emitToolSummary_def suppressRepeat_def deliverToolSummary_def emitTruncationNotice_def
  consumeMetaQuota_def flush_def flushBufferedToolDeliveries_def flushLiveBuffer_def
  drainChunker_def clearLiveIdleTimer_def scheduleLiveIdleFlush_def resetTurnState_def
  acceptVisibleText_def acceptedText_def withSeparator_def call_def
  isAcpTagVisible_def ACP_TAG_VISIBILITY_DEFAULTS_def HIDDEN_BOUNDARY_TAGS_def
  TERMINAL_TOOL_STATUSES_def truncateText_def hashText_def trim_def trimStart_def trimEnd_def
  toLowerCase_def lowerUnit_def isWhiteSpace_def normalizeToolStatus_def isTerminalStatus_def
  trimmedOrUndefined_def renderToolSummaryText_def toolSummaryOf_def toolCallIdOf_def
  isStartOf_def shouldInsertSeparator_def resolveHiddenBoundarySeparatorText_def
  shouldFlushLiveBufferOnBoundary_def shouldFlushLiveBufferOnIdle_def endsSentence_def
  endsWithSpace_def isSentenceEnd_def isClosingMark_def liveIdleFlushMs_def
  ACP_LIVE_IDLE_FLUSH_FLOOR_MS_def ACP_LIVE_IDLE_MIN_CHARS_def ACP_LIVE_SOFT_FLUSH_CHARS_def
  ACP_LIVE_HARD_FLUSH_CHARS_def initialState_def settings_eval exampleProjector_def
  tightProjector_def js_def Let_def

subsection \<open>Silent projectors\<close>

lemma emitSystemStatus_silent:
  "\<not> shouldSendToolSummaries P \<Longrightarrow> emitSystemStatus P t m f d s = s"
  by (simp add: emitSystemStatus_def)

lemma emitTruncationNotice_silent:
  "\<not> shouldSendToolSummaries P \<Longrightarrow>
   out (emitTruncationNotice P s) = out s \<and>
   pendingToolDeliveries (emitTruncationNotice P s) = pendingToolDeliveries s"
  by (simp add: emitTruncationNotice_def emitSystemStatus_silent)

lemma onTextDelta_silent:
  assumes "\<not> shouldSendToolSummaries P"
  shows "toolOutputs (onTextDelta P st tg t s) = toolOutputs s"
  using assms emitTruncationNotice_silent [OF assms]
  by (simp add: onTextDelta_def Let_def toolOutputs_def)

lemma onStatus_silent:
  assumes "\<not> shouldSendToolSummaries P"
  shows "out (onStatus P tg t u z s) = out s \<and>
         pendingToolDeliveries (onStatus P tg t u z s) = pendingToolDeliveries s"
  using assms by (simp add: onStatus_def Let_def emitSystemStatus_silent)

lemma onToolCall_silent:
  assumes "\<not> shouldSendToolSummaries P"
  shows "out (onToolCall P e s) = out s \<and>
         pendingToolDeliveries (onToolCall P e s) = pendingToolDeliveries s"
  using assms by (simp add: onToolCall_def Let_def emitToolSummary_silent)

lemma stimulate_silent:
  assumes "\<not> shouldSendToolSummaries P" and "toolOutputs s = []"
  shows "toolOutputs (stimulate P s x) = []"
proof (cases x)
  case (Event e)
  show ?thesis
  proof (cases e)
    case (TextDelta st tg t)
    with Event assms show ?thesis by (simp add: onTextDelta_silent)
  next
    case (Status tg t u z)
    with Event assms onStatus_silent [OF assms(1), of tg t u z s] show ?thesis
      by (simp add: toolOutputs_def)
  next
    case (ToolCall ev)
    with Event assms onToolCall_silent [OF assms(1), of ev s] show ?thesis
      by (simp add: toolOutputs_def)
  next
    case Done
    with Event assms show ?thesis
      by (simp add: toolOutputs_def resetTurnState_def)
  next
    case Error
    with Event assms show ?thesis
      by (simp add: toolOutputs_def resetTurnState_def)
  qed
next
  case (FlushCall f)
  with assms show ?thesis by simp
next
  case IdleTimerExpired
  with assms show ?thesis by simp
qed

lemma run_silent:
  "\<not> shouldSendToolSummaries P \<Longrightarrow> toolOutputs s = [] \<Longrightarrow> toolOutputs (run P s xs) = []"
  by (induction xs rule: rev_induct) (simp_all add: stimulate_silent)

lemma truncates_TextDelta:
  assumes "truncates P s x"
  obtains st tg t where "x = Event (TextDelta st tg t)" and "projected P st tg t"
    and "maxTurnChars (settings P) - emittedTurnChars s < length (withSeparator P s t)"
proof (cases x)
  case (Event e)
  with assms that show ?thesis
    by (cases e) simp_all
next
  case (FlushCall f)
  with assms show ?thesis by simp
next
  case IdleTimerExpired
  with assms show ?thesis by simp
qed

lemma truncates_latch:
  assumes "truncates P s x"
  shows "truncationNoticeEmitted (stimulate P s x)"
proof -
  from assms obtain st tg t where x: "x = Event (TextDelta st tg t)"
    by (rule truncates_TextDelta)
  with assms show ?thesis
    by (auto simp: onTextDelta_def projected_def Let_def acceptedText_def)
qed

subsection \<open>Counting truncation notices\<close>

lemma trim_output_truncated: "trim (js ''output truncated'') = js ''output truncated''"
  by (simp add: trim_def trimStart_def trimEnd_def isWhiteSpace_def js_def)

lemma bounded_output_truncated:
  "16 \<le> n \<Longrightarrow> truncateText (trim (js ''output truncated'')) n = js ''output truncated''"
  by (simp add: trim_output_truncated truncateText_def)

lemma output_truncated_nonempty: "js ''output truncated'' \<noteq> []"
  by (simp add: js_def)

lemma emitTruncationNotice_latched:
  "truncationNoticeEmitted s \<Longrightarrow> emitTruncationNotice P s = s"
  by (simp add: emitTruncationNotice_def)

lemma emitTruncationNotice_first:
  assumes "shouldSendToolSummaries P" and "16 \<le> maxStatusChars (settings P)"
    and "\<not> truncationNoticeEmitted s"
  shows "mset (toolOutputs (emitTruncationNotice P s)) = mset (toolOutputs s) + {#truncationNotice P#}"
proof -
  let ?s = "s\<lparr>truncationNoticeEmitted := True\<rparr>"
  have "statusDelivered P (js ''output truncated'') True False ?s"
    using assms by (simp add: statusDelivered_def bounded_output_truncated output_truncated_nonempty)
  from emitSystemStatus_delivered(1) [OF this] assms show ?thesis
    by (simp add: emitTruncationNotice_def truncationNotice_def bounded_output_truncated)
qed

lemma emitTruncationNotice_count:
  assumes "shouldSendToolSummaries P" and "16 \<le> maxStatusChars (settings P)"
  shows "count (mset (toolOutputs (emitTruncationNotice P s))) (truncationNotice P) =
         count (mset (toolOutputs s)) (truncationNotice P) +
           (if truncationNoticeEmitted s then 0 else 1)"
  using emitTruncationNotice_first [OF assms, of s]
  by (simp add: emitTruncationNotice_latched)

lemma onTextDelta_truncating:
  assumes "projected P st tg t"
    and "maxTurnChars (settings P) - emittedTurnChars s < length (withSeparator P s t)"
  shows "\<exists>s'. onTextDelta P st tg t s = emitTruncationNotice P s' \<and>
              toolOutputs s' = toolOutputs s \<and>
              truncationNoticeEmitted s' = truncationNoticeEmitted s"
proof (cases "maxTurnChars (settings P) \<le> emittedTurnChars s")
  case True
  with assms have "onTextDelta P st tg t s = emitTruncationNotice P (s\<lparr>pendingHiddenBoundary := False\<rparr>)"
    by (auto simp: onTextDelta_def projected_def Let_def)
  then show ?thesis
    by (intro exI [of _ "s\<lparr>pendingHiddenBoundary := False\<rparr>"]) simp
next
  case False
  let ?a = "take (maxTurnChars (settings P) - emittedTurnChars s) (withSeparator P s t)"
  from False assms have "onTextDelta P st tg t s =
      emitTruncationNotice P (acceptVisibleText P ?a (s\<lparr>pendingHiddenBoundary := False\<rparr>))"
    by (auto simp: onTextDelta_def projected_def Let_def acceptedText_def)
  then show ?thesis
    by (intro exI [of _ "acceptVisibleText P ?a (s\<lparr>pendingHiddenBoundary := False\<rparr>)"]) simp
qed

lemma withSeparator_Nil [simp]: "withSeparator P s t = [] \<longleftrightarrow> t = []"
  by (auto simp: withSeparator_def Let_def shouldInsertSeparator_def)

lemma onTextDelta_not_truncating:
  assumes "\<not> (projected P st tg t \<and>
      maxTurnChars (settings P) - emittedTurnChars s < length (withSeparator P s t))"
  shows "toolOutputs (onTextDelta P st tg t s) = toolOutputs s \<and>
         truncationNoticeEmitted (onTextDelta P st tg t s) = truncationNoticeEmitted s"
  using assms
  by (auto simp: onTextDelta_def projected_def Let_def acceptedText_def)

lemma js_Nil [simp]: "js t = [] \<longleftrightarrow> t = []"
  by (simp add: js_def)

lemma onStatus_cases:
  obtains "onStatus P tg t u z s = s"
  | v where "onStatus P tg t u z s =
      emitSystemStatus P t (if truthy tg
                    then Some \<lparr>m_tag = tg, m_toolCallId = None, m_toolStatus = None,
                                m_allowEdit = None\<rparr>
                    else None) False True (s\<lparr>lastUsageTuple := v\<rparr>)"
proof (cases "isAcpTagVisible (settings P) tg")
  case False
  then have "onStatus P tg t u z s = s"
    by (simp add: onStatus_def)
  then show ?thesis by (rule that(1))
next
  case True
  let ?m = "if truthy tg
            then Some \<lparr>m_tag = tg, m_toolCallId = None, m_toolStatus = None, m_allowEdit = None\<rparr>
            else None"
  let ?v = "case (u, z) of (Some a, Some b) \<Rightarrow> showInt a @ [47] @ showInt b | _ \<Rightarrow> hashText t"
  show ?thesis
  proof (cases "tg = Some (js ''usage_update'') \<and> repeatSuppression (settings P)")
    case usage: True
    show ?thesis
    proof (cases "Some ?v = lastUsageTuple s")
      case same: True
      with True usage have "onStatus P tg t u z s = s"
        by (simp add: onStatus_def Let_def)
      then show ?thesis by (rule that(1))
    next
      case other: False
      with True usage have "onStatus P tg t u z s =
          emitSystemStatus P t ?m False True (s\<lparr>lastUsageTuple := Some ?v\<rparr>)"
        by (simp add: onStatus_def Let_def)
      then show ?thesis by (rule that(2))
    qed
  next
    case False
    with True have "onStatus P tg t u z s =
        emitSystemStatus P t ?m False True (s\<lparr>lastUsageTuple := lastUsageTuple s\<rparr>)"
      by (auto simp: onStatus_def Let_def)
    then show ?thesis by (rule that(2))
  qed
qed

lemma onStatus_count:
  assumes "\<not> mimicsNotice P (Event (Status tg t u z))"
  shows "count (mset (toolOutputs (onStatus P tg t u z s))) (truncationNotice P) =
         count (mset (toolOutputs s)) (truncationNotice P)"
proof -
  let ?line = "prefixSystemMessage P (truncateText (trim t) (maxStatusChars (settings P)))"
  have one: "count (mset (toolOutputs (emitSystemStatus P t m False True s')))
        (truncationNotice P) = count (mset (toolOutputs s')) (truncationNotice P)"
    if "(?line, m) \<noteq> truncationNotice P" for m s'
  proof (cases "statusDelivered P t False True s'")
    case True
    from emitSystemStatus_delivered(1) [OF True, of m] that show ?thesis
      by simp
  next
    case False
    then show ?thesis by (simp add: emitSystemStatus_not_delivered)
  qed
  have ne: "(?line, if truthy tg
                    then Some \<lparr>m_tag = tg, m_toolCallId = None, m_toolStatus = None,
                                m_allowEdit = None\<rparr>
                    else None) \<noteq> truncationNotice P"
    using assms by (auto simp: truncationNotice_def)
  consider "onStatus P tg t u z s = s"
    | v where "onStatus P tg t u z s =
        emitSystemStatus P t (if truthy tg
                    then Some \<lparr>m_tag = tg, m_toolCallId = None, m_toolStatus = None,
                                m_allowEdit = None\<rparr>
                    else None) False True (s\<lparr>lastUsageTuple := v\<rparr>)"
    by (rule onStatus_cases)
  then show ?thesis
  proof cases
    case 1
    then show ?thesis by simp
  next
    case 2
    with one [OF ne, of "s\<lparr>lastUsageTuple := v\<rparr>"] show ?thesis
      by simp
  qed
qed

lemma onToolCall_count:
  "count (mset (toolOutputs (onToolCall P e s))) (truncationNotice P) =
   count (mset (toolOutputs s)) (truncationNotice P)"
  by (simp add: onToolCall_def Let_def emitToolSummary_count truncationNotice_def)

lemma stimulate_latch:
  assumes "\<not> endsTurn x"
  shows "truncationNoticeEmitted (stimulate P s x) = (truncationNoticeEmitted s \<or> truncates P s x)"
proof (cases "truncates P s x")
  case True
  then show ?thesis by (simp add: truncates_latch)
next
  case False
  show ?thesis
  proof (cases x)
    case (Event e)
    with assms False show ?thesis
      by (cases e) (auto simp: onTextDelta_not_truncating)
  next
    case (FlushCall f)
    then show ?thesis by simp
  next
    case IdleTimerExpired
    then show ?thesis by simp
  qed
qed

lemma stimulate_notice_count:
  assumes "shouldSendToolSummaries P" and "16 \<le> maxStatusChars (settings P)"
    and "\<not> endsTurn x" and "\<not> mimicsNotice P x"
  shows "count (mset (toolOutputs (stimulate P s x))) (truncationNotice P) =
         count (mset (toolOutputs s)) (truncationNotice P) +
           (if truncates P s x \<and> \<not> truncationNoticeEmitted s then 1 else 0)"
proof (cases "truncates P s x")
  case True
  then obtain st tg t where x: "x = Event (TextDelta st tg t)" and "projected P st tg t"
    and "maxTurnChars (settings P) - emittedTurnChars s < length (withSeparator P s t)"
    by (rule truncates_TextDelta)
  from onTextDelta_truncating [OF this(2,3)] obtain s' where
    "onTextDelta P st tg t s = emitTruncationNotice P s'" "toolOutputs s' = toolOutputs s"
    "truncationNoticeEmitted s' = truncationNoticeEmitted s"
    by blast
  with True x emitTruncationNotice_count [OF assms(1,2), of s'] show ?thesis
    by simp
next
  case False
  show ?thesis
  proof (cases x)
    case (Event e)
    with assms False show ?thesis
      by (cases e) (auto simp: onTextDelta_not_truncating onStatus_count onToolCall_count)
  next
    case (FlushCall f)
    with False show ?thesis by simp
  next
    case IdleTimerExpired
    with False show ?thesis by simp
  qed
qed

lemma run_notice_count:
  assumes "shouldSendToolSummaries P" and "16 \<le> maxStatusChars (settings P)"
    and "\<forall>x\<in>set xs. \<not> endsTurn x \<and> \<not> mimicsNotice P x"
  shows "count (mset (toolOutputs (run P s xs))) (truncationNotice P) =
           count (mset (toolOutputs s)) (truncationNotice P) +
             (if truncationOccurs P s xs \<and> \<not> truncationNoticeEmitted s then 1 else 0) \<and>
         truncationNoticeEmitted (run P s xs) =
           (truncationNoticeEmitted s \<or> truncationOccurs P s xs)"
  using assms(3)
proof (induction xs arbitrary: s)
  case Nil
  then show ?case by simp
next
  case (Cons x xs)
  then have x: "\<not> endsTurn x" "\<not> mimicsNotice P x"
    and rest: "\<forall>y\<in>set xs. \<not> endsTurn y \<and> \<not> mimicsNotice P y"
    by simp_all
  from Cons.IH [OF rest, of "stimulate P s x"]
    stimulate_notice_count [OF assms(1,2) x, of s] stimulate_latch [OF x(1), of P s]
  show ?case
    by auto
qed

subsection \<open>The lifecycle map\<close>

lemma suppressRepeat_terminal:
  assumes "repeatSuppression (settings P)" and "toolCallIdOf e = Some i"
    and "terminalReached s i" and "hasTerminalStatus e"
  shows "suppressRepeat P e s = None"
  using assms
  by (auto simp: suppressRepeat_def terminalReached_def hasTerminalStatus_def Let_def
      split: option.splits)

lemma suppressRepeat_recorded_hash:
  assumes "repeatSuppression (settings P)" and "toolCallIdOf e = Some i"
    and "lastRenderedHash (lifecycleOf s i) = Some (hashText (toolSummaryOf P e))"
  shows "suppressRepeat P e s = None"
  using assms
  by (auto simp: suppressRepeat_def lifecycleOf_def Let_def split: option.splits)

lemma suppressRepeat_passes:
  assumes "repeatSuppression (settings P)" and "toolCallIdOf e = Some i"
    and "\<not> (isStartOf e \<and> started (lifecycleOf s i))"
    and "\<not> (hasTerminalStatus e \<and> terminal (lifecycleOf s i))"
  shows "suppressRepeat P e s =
     (if lastRenderedHash (lifecycleOf s i) = Some (hashText (toolSummaryOf P e)) then None
      else Some (s\<lparr>toolLifecycleById := (toolLifecycleById s)(i \<mapsto>
                   \<lparr>started = (isStartOf e \<or> started (lifecycleOf s i)),
                    terminal = (hasTerminalStatus e \<or> terminal (lifecycleOf s i)),
                    lastRenderedHash = Some (hashText (toolSummaryOf P e))\<rparr>)\<rparr>))"
  using assms
  by (auto simp: suppressRepeat_def lifecycleOf_def hasTerminalStatus_def Let_def
      split: option.splits)

lemma suppressRepeat_records:
  assumes "repeatSuppression (settings P)" and "toolCallIdOf e = Some i"
    and "suppressRepeat P e s = Some s0"
  shows "\<exists>st. toolLifecycleById s0 i = Some st \<and>
              lastRenderedHash st = Some (hashText (toolSummaryOf P e)) \<and>
              (hasTerminalStatus e \<longrightarrow> terminal st)"
  using assms
  by (auto simp: suppressRepeat_def hasTerminalStatus_def Let_def split: if_splits)

lemma suppressRepeat_keeps_terminal:
  assumes "terminalReached s i" and "suppressRepeat P e s = Some s0"
  shows "terminalReached s0 i"
  using assms
  by (auto simp: suppressRepeat_def terminalReached_def Let_def split: if_splits option.splits)

lemma emitToolSummary_keeps_terminal:
  assumes "terminalReached s i"
  shows "terminalReached (emitToolSummary P e f s) i"
proof (cases "suppressRepeat P e s")
  case None
  with assms show ?thesis by (simp add: emitToolSummary_def)
next
  case (Some s0)
  from suppressRepeat_keeps_terminal [OF assms Some]
  have "terminalReached (deliverToolSummary P e f s0) i"
    by (simp add: terminalReached_def)
  with assms Some show ?thesis
    by (simp add: emitToolSummary_def)
qed

lemma onToolCall_keeps_terminal:
  "terminalReached s i \<Longrightarrow> terminalReached (onToolCall P e s) i"
  by (auto simp: onToolCall_def Let_def emitToolSummary_keeps_terminal)
    (simp add: terminalReached_def)

lemma stimulate_keeps_terminal:
  assumes "terminalReached s i" and "\<not> endsTurn x"
  shows "terminalReached (stimulate P s x) i"
proof (cases x)
  case (Event e)
  show ?thesis
  proof (cases e)
    case (ToolCall ev)
    with Event assms show ?thesis
      by (simp add: onToolCall_keeps_terminal)
  qed (use Event assms in \<open>simp_all add: terminalReached_def\<close>)
next
  case (FlushCall f)
  with assms show ?thesis by (simp add: terminalReached_def)
next
  case IdleTimerExpired
  with assms show ?thesis by (simp add: terminalReached_def)
qed

lemma run_keeps_terminal:
  "terminalReached s i \<Longrightarrow> \<forall>x\<in>set xs. \<not> endsTurn x \<Longrightarrow> terminalReached (run P s xs) i"
  by (induction xs rule: rev_induct) (simp_all add: stimulate_keeps_terminal)

lemma onToolCall_suppressed:
  assumes "suppressRepeat P e s = None"
  shows "out (onToolCall P e s) = out s \<and>
         pendingToolDeliveries (onToolCall P e s) = pendingToolDeliveries s"
  using assms by (simp add: onToolCall_def emitToolSummary_def Let_def)

lemma deliverToolSummary_outputs:
  "deliverToolSummary P e f s = s \<or>
   length (toolOutputs (deliverToolSummary P e f s)) = Suc (length (toolOutputs s))"
  by (simp add: deliverToolSummary_def consumeMetaQuota_cases Let_def call_def toolOutputs_def)

lemma onToolCall_delivered:
  assumes "toolOutputs (onToolCall P e s) \<noteq> toolOutputs s"
  shows "\<exists>s0. suppressRepeat P e s = Some s0 \<and>
              toolLifecycleById (onToolCall P e s) = toolLifecycleById s0 \<and>
              length (toolOutputs (onToolCall P e s)) = Suc (length (toolOutputs s))"
proof (cases "suppressRepeat P e s")
  case None
  with assms show ?thesis
    by (simp add: onToolCall_def emitToolSummary_def Let_def split: if_splits)
next
  case (Some s0)
  from assms have emitted: "onToolCall P e s = deliverToolSummary P e False s0"
    using Some by (simp add: onToolCall_def emitToolSummary_def Let_def split: if_splits)
  from suppressRepeat_Some [OF Some] have same: "toolOutputs s0 = toolOutputs s"
    by simp
  from deliverToolSummary_outputs [of P e False s0] assms emitted same
  have "length (toolOutputs (deliverToolSummary P e False s0)) = Suc (length (toolOutputs s0))"
    by auto
  with Some emitted same show ?thesis
    by simp
qed

lemma deliverToolSummary_quota:
  "length (toolOutputs (deliverToolSummary P e False s)) =
     length (toolOutputs s) + (if emittedMetaEvents s < maxMetaEventsPerTurn (settings P) then 1 else 0)"
  by (simp add: deliverToolSummary_def consumeMetaQuota_cases Let_def call_def toolOutputs_def)

lemma onToolCall_first_of_pair:
  assumes "repeatSuppression (settings P)" and "toolCallIdOf e = Some i"
    and "isAcpTagVisible (settings P) (tc_tag e)"
    and "\<not> (isStartOf e \<and> started (lifecycleOf s i))"
    and "\<not> (hasTerminalStatus e \<and> terminal (lifecycleOf s i))"
  shows "(shouldSendToolSummaries P \<longrightarrow>
            lastRenderedHash (lifecycleOf (onToolCall P e s) i) = Some (hashText (toolSummaryOf P e)))"
    and "length (toolOutputs (onToolCall P e s)) =
           length (toolOutputs s) +
           (if shouldSendToolSummaries P \<and>
               lastRenderedHash (lifecycleOf s i) \<noteq> Some (hashText (toolSummaryOf P e)) \<and>
               emittedMetaEvents s < maxMetaEventsPerTurn (settings P)
            then 1 else 0)"
    and "\<not> shouldSendToolSummaries P \<longrightarrow> onToolCall P e s = s"
  using assms(3)
  by (simp_all add: onToolCall_def emitToolSummary_def suppressRepeat_passes [OF assms(1,2,4,5)]
      deliverToolSummary_quota)
    (simp_all add: lifecycleOf_def toolOutputs_def)


lemmas tool_eval_defs = toolEvent_def toolMeta_def verboseProjector_def repeatingProjector_def
  hasTerminalStatus_def terminalReached_def

section \<open>Properties of the projector\<close>

subsection \<open>The character budget of a turn\<close>

text \<open>
  Claim C1. From a state whose counter is within the budget (as it is at the start of a
  turn, where it is 0), after any sequence of events, timer expiries and flushes,
  \<open>emittedTurnChars\<close> is at most \<open>maxTurnChars\<close>. Within a turn, the number of characters of
  visible text accepted (appended to the chunker or waiting in the live buffer) grows
  exactly as the counter does, so it never exceeds the budget that remained. When the
  remaining budget is smaller than a projected fragment, separator included, the accepted
  text is the slice of the fragment that fits exactly: the counter reaches
  \<open>maxTurnChars\<close> and the accepted text grows by the first \<open>remaining\<close> characters.
\<close>

theorem turn_char_budget:
  assumes "emittedTurnChars s \<le> maxTurnChars (settings P)"
  shows "emittedTurnChars (run P s xs) \<le> maxTurnChars (settings P) \<and>
         ((\<forall>x\<in>set xs. \<not> endsTurn x) \<longrightarrow>
            length (visibleText (run P s xs)) + emittedTurnChars s =
              length (visibleText s) + emittedTurnChars (run P s xs) \<and>
            length (visibleText (run P s xs)) \<le>
              length (visibleText s) + (maxTurnChars (settings P) - emittedTurnChars s)) \<and>
         (projected P stream tg text \<and>
          maxTurnChars (settings P) - emittedTurnChars s < length (withSeparator P s text) \<longrightarrow>
            emittedTurnChars (onEvent P (TextDelta stream tg text) s) = maxTurnChars (settings P) \<and>
            (deliveryMode (settings P) = live \<or> liveBufferText s = [] \<longrightarrow>
               visibleText (onEvent P (TextDelta stream tg text) s) =
                 visibleText s @ take (maxTurnChars (settings P) - emittedTurnChars s)
                                     (withSeparator P s text)))"
proof (intro conjI impI)
  show le: "emittedTurnChars (run P s xs) \<le> maxTurnChars (settings P)"
    using assms by (rule run_chars_le)
  {
    assume turn: "\<forall>x\<in>set xs. \<not> endsTurn x"
    then show eq: "length (visibleText (run P s xs)) + emittedTurnChars s =
        length (visibleText s) + emittedTurnChars (run P s xs)"
      by (rule run_accounting)
    from eq le assms
    show "length (visibleText (run P s xs)) \<le>
        length (visibleText s) + (maxTurnChars (settings P) - emittedTurnChars s)"
      by linarith
  }
  {
    assume over: "projected P stream tg text \<and>
        maxTurnChars (settings P) - emittedTurnChars s < length (withSeparator P s text)"
    then show "emittedTurnChars (onEvent P (TextDelta stream tg text) s) = maxTurnChars (settings P)"
      using assms by (simp add: onTextDelta_sliced(1))
    assume "deliveryMode (settings P) = live \<or> liveBufferText s = []"
    with over show "visibleText (onEvent P (TextDelta stream tg text) s) =
        visibleText s @ take (maxTurnChars (settings P) - emittedTurnChars s)
                            (withSeparator P s text)"
      using assms by (simp add: onTextDelta_sliced(2))
  }
qed

theorem turn_char_budget_witness:
  "emittedTurnChars initialState \<le> maxTurnChars (settings tightProjector) \<and>
   projected tightProjector None None (js ''Hello'') \<and>
   maxTurnChars (settings tightProjector) - emittedTurnChars initialState
     < length (withSeparator tightProjector initialState (js ''Hello'')) \<and>
   emittedTurnChars (run tightProjector initialState [Event (TextDelta None None (js ''Hello''))]) \<le> 3 \<and>
   length (visibleText (run tightProjector initialState [Event (TextDelta None None (js ''Hello''))])) \<le> 3 \<and>
   emittedTurnChars (onEvent tightProjector (TextDelta None None (js ''Hello'')) initialState) = 3 \<and>
   visibleText (onEvent tightProjector (TextDelta None None (js ''Hello'')) initialState) = js ''Hel''"
proof -
  have h0: "emittedTurnChars initialState \<le> maxTurnChars (settings tightProjector)"
    by (simp add: initialState_def)
  have h1: "\<forall>x\<in>set [Event (TextDelta None None (js ''Hello''))]. \<not> endsTurn x"
    by simp
  have h2: "projected tightProjector None None (js ''Hello'')"
    by (simp add: projected_def isAcpTagVisible_def js_def)
  have h3: "maxTurnChars (settings tightProjector) - emittedTurnChars initialState
     < length (withSeparator tightProjector initialState (js ''Hello''))"
    by (simp add: tightProjector_def settings_eval initialState_def withSeparator_def js_def)
  have mode: "deliveryMode (settings tightProjector) = live"
    by (simp add: tightProjector_def settings_eval)
  have vals: "maxTurnChars (settings tightProjector) = 3" "emittedTurnChars initialState = 0"
    "visibleText initialState = []"
    "withSeparator tightProjector initialState (js ''Hello'') = js ''Hello''"
    "take 3 (js ''Hello'') = js ''Hel''"
    by (simp_all add: tightProjector_def settings_eval initialState_def withSeparator_def
        visibleText_def js_def)
  from turn_char_budget [OF h0, of "[Event (TextDelta None None (js ''Hello''))]" None None "js ''Hello''"]
    h0 h1 h2 h3 mode
  show ?thesis
    by (simp add: vals)
qed

subsection \<open>Tool calls that reached a terminal status\<close>

text \<open>
  Claim C2, amended. With repeat suppression on: once a tool-call event with a terminal
  status has been delivered (or queued) for an id, \<open>toolLifecycleById[id].terminal\<close> is
  true, and for the rest of the turn no event that carries this id and a terminal status
  calls a collaborator or queues a delivery.
\<close>

theorem terminal_tool_call_not_repeated:
  assumes "repeatSuppression (settings P)"
    and "toolCallIdOf e0 = Some i" and "hasTerminalStatus e0"
    and "toolOutputs (onEvent P (ToolCall e0) s) \<noteq> toolOutputs s"
    and "\<forall>x\<in>set xs. \<not> endsTurn x"
    and "toolCallIdOf e = Some i" and "hasTerminalStatus e"
  shows "terminalReached (onEvent P (ToolCall e0) s) i \<and>
         out (onEvent P (ToolCall e) (run P (onEvent P (ToolCall e0) s) xs)) =
           out (run P (onEvent P (ToolCall e0) s) xs) \<and>
         pendingToolDeliveries (onEvent P (ToolCall e) (run P (onEvent P (ToolCall e0) s) xs)) =
           pendingToolDeliveries (run P (onEvent P (ToolCall e0) s) xs)"
proof -
  let ?s1 = "onEvent P (ToolCall e0) s"
  from assms(4) obtain s0 where s0: "suppressRepeat P e0 s = Some s0"
    "toolLifecycleById ?s1 = toolLifecycleById s0"
    using onToolCall_delivered [of P e0 s] by auto
  from suppressRepeat_records [OF assms(1,2) s0(1)] assms(3) s0(2)
  have reached: "terminalReached ?s1 i"
    by (auto simp: terminalReached_def)
  then have "terminalReached (run P ?s1 xs) i"
    using assms(5) by (rule run_keeps_terminal)
  then have "suppressRepeat P e (run P ?s1 xs) = None"
    using assms(1,6,7) by (simp add: suppressRepeat_terminal)
  from onToolCall_suppressed [OF this] reached show ?thesis
    by simp
qed

theorem terminal_tool_call_not_repeated_witness:
  "toolOutputs (onEvent verboseProjector
      (ToolCall (toolEvent ''tool_call_update'' ''T1'' ''completed'')) initialState)
     = [(js ''Tool Call: status=completed'', toolMeta ''tool_call_update'' ''T1'' ''completed'' True)] \<and>
   terminalReached (onEvent verboseProjector
      (ToolCall (toolEvent ''tool_call_update'' ''T1'' ''completed'')) initialState) (js ''T1'') \<and>
   pendingToolDeliveries
     (onEvent verboseProjector (ToolCall (toolEvent ''tool_call_update'' ''T1'' ''failed''))
        (run verboseProjector
           (onEvent verboseProjector
              (ToolCall (toolEvent ''tool_call_update'' ''T1'' ''completed'')) initialState)
           [Event (TextDelta None None (js ''ok''))]))
     = pendingToolDeliveries
        (run verboseProjector
           (onEvent verboseProjector
              (ToolCall (toolEvent ''tool_call_update'' ''T1'' ''completed'')) initialState)
           [Event (TextDelta None None (js ''ok''))])"
proof -
  let ?first = "toolEvent ''tool_call_update'' ''T1'' ''completed''"
  let ?later = "toolEvent ''tool_call_update'' ''T1'' ''failed''"
  let ?between = "[Event (TextDelta None None (js ''ok''))]"
  have rs: "repeatSuppression (settings verboseProjector)"
    by (simp add: verboseProjector_def exampleProjector_def settings_eval)
  have id0: "toolCallIdOf ?first = Some (js ''T1'')" and id: "toolCallIdOf ?later = Some (js ''T1'')"
    by (simp_all add: tool_eval_defs eval_defs)
  have t0: "hasTerminalStatus ?first" and t: "hasTerminalStatus ?later"
    by (simp_all add: tool_eval_defs eval_defs)
  have "out (onEvent verboseProjector (ToolCall ?first) initialState) = []"
    and "pendingToolDeliveries (onEvent verboseProjector (ToolCall ?first) initialState)
      = [(js ''Tool Call: status=completed'', toolMeta ''tool_call_update'' ''T1'' ''completed'' True)]"
    by (simp_all add: tool_eval_defs eval_defs)
  then have first: "toolOutputs (onEvent verboseProjector (ToolCall ?first) initialState)
      = [(js ''Tool Call: status=completed'', toolMeta ''tool_call_update'' ''T1'' ''completed'' True)]"
    by (simp only: toolOutputs_queued)
  have init: "toolOutputs initialState = []"
    by (simp add: toolOutputs_def initialState_def)
  have delivered: "toolOutputs (onEvent verboseProjector (ToolCall ?first) initialState)
      \<noteq> toolOutputs initialState"
    by (simp only: first init) simp
  have turn: "\<forall>x\<in>set ?between. \<not> endsTurn x"
    by simp
  from terminal_tool_call_not_repeated [OF rs id0 t0 delivered turn id t] first
  show ?thesis
    by blast
qed

text \<open>
  Claim C2 as stated fails in three ways. Without repeat suppression a terminal event
  for the same id is delivered again. With repeat suppression, an event for the same id
  whose status is not terminal is delivered after the terminal one. And a terminal event
  that is itself suppressed (here as a repeated start) does not set the terminal flag, so
  that a later terminal event for the same id is delivered.
\<close>

theorem delivery_after_terminal_status:
  "toolOutputs (run repeatingProjector initialState
      [Event (ToolCall (toolEvent ''tool_call_update'' ''T1'' ''completed'')),
       Event (ToolCall (toolEvent ''tool_call_update'' ''T1'' ''completed''))])
     = [(js ''Tool Call: status=completed'', toolMeta ''tool_call_update'' ''T1'' ''completed'' True),
        (js ''Tool Call: status=completed'', toolMeta ''tool_call_update'' ''T1'' ''completed'' True)] \<and>
   toolOutputs (run verboseProjector initialState
      [Event (ToolCall (toolEvent ''tool_call_update'' ''T1'' ''completed'')),
       Event (ToolCall (toolEvent ''tool_call_update'' ''T1'' ''running''))])
     = [(js ''Tool Call: status=completed'', toolMeta ''tool_call_update'' ''T1'' ''completed'' True),
        (js ''Tool Call: status=running'', toolMeta ''tool_call_update'' ''T1'' ''running'' True)] \<and>
   toolOutputs (run verboseProjector initialState
      [Event (ToolCall (toolEvent ''tool_call'' ''T1'' ''in_progress'')),
       Event (ToolCall (toolEvent ''tool_call'' ''T1'' ''completed'')),
       Event (ToolCall (toolEvent ''tool_call_update'' ''T1'' ''completed''))])
     = [(js ''Tool Call: status=in_progress'', toolMeta ''tool_call'' ''T1'' ''in_progress'' False),
        (js ''Tool Call: status=completed'', toolMeta ''tool_call_update'' ''T1'' ''completed'' True)]"
proof -
  let ?a = "run repeatingProjector initialState
      [Event (ToolCall (toolEvent ''tool_call_update'' ''T1'' ''completed'')),
       Event (ToolCall (toolEvent ''tool_call_update'' ''T1'' ''completed''))]"
  let ?b = "run verboseProjector initialState
      [Event (ToolCall (toolEvent ''tool_call_update'' ''T1'' ''completed'')),
       Event (ToolCall (toolEvent ''tool_call_update'' ''T1'' ''running''))]"
  let ?c = "run verboseProjector initialState
      [Event (ToolCall (toolEvent ''tool_call'' ''T1'' ''in_progress'')),
       Event (ToolCall (toolEvent ''tool_call'' ''T1'' ''completed'')),
       Event (ToolCall (toolEvent ''tool_call_update'' ''T1'' ''completed''))]"
  have "out ?a = []"
    and "pendingToolDeliveries ?a
     = [(js ''Tool Call: status=completed'', toolMeta ''tool_call_update'' ''T1'' ''completed'' True),
        (js ''Tool Call: status=completed'', toolMeta ''tool_call_update'' ''T1'' ''completed'' True)]"
    by (simp_all add: tool_eval_defs eval_defs)
  then have a: "toolOutputs ?a
     = [(js ''Tool Call: status=completed'', toolMeta ''tool_call_update'' ''T1'' ''completed'' True),
        (js ''Tool Call: status=completed'', toolMeta ''tool_call_update'' ''T1'' ''completed'' True)]"
    by (simp only: toolOutputs_queued)
  have "out ?b = []"
    and "pendingToolDeliveries ?b
     = [(js ''Tool Call: status=completed'', toolMeta ''tool_call_update'' ''T1'' ''completed'' True),
        (js ''Tool Call: status=running'', toolMeta ''tool_call_update'' ''T1'' ''running'' True)]"
    by (simp_all add: tool_eval_defs eval_defs)
  then have b: "toolOutputs ?b
     = [(js ''Tool Call: status=completed'', toolMeta ''tool_call_update'' ''T1'' ''completed'' True),
        (js ''Tool Call: status=running'', toolMeta ''tool_call_update'' ''T1'' ''running'' True)]"
    by (simp only: toolOutputs_queued)
  have "out ?c = []"
    and "pendingToolDeliveries ?c
     = [(js ''Tool Call: status=in_progress'', toolMeta ''tool_call'' ''T1'' ''in_progress'' False),
        (js ''Tool Call: status=completed'', toolMeta ''tool_call_update'' ''T1'' ''completed'' True)]"
    by (simp_all add: tool_eval_defs eval_defs)
  then have c: "toolOutputs ?c
     = [(js ''Tool Call: status=in_progress'', toolMeta ''tool_call'' ''T1'' ''in_progress'' False),
        (js ''Tool Call: status=completed'', toolMeta ''tool_call_update'' ''T1'' ''completed'' True)]"
    by (simp only: toolOutputs_queued)
  from a b c show ?thesis
    by (intro conjI)
qed

subsection \<open>The truncation notice\<close>

text \<open>
  Claim C3, amended. For a projector that sends tool summaries, in a turn none of whose
  status events is itself rendered as the notice: the number of "output truncated"
  notices delivered or queued in the turn is 1 if truncation occurs in the turn and the
  latch was not set before (it is not at the start of a turn), and 0 otherwise; and the
  latch is set afterwards exactly if it was set before or truncation occurred. The notice
  is forced (it consumes no meta quota and is delivered whatever the quota), it is not
  deduplicated (it is delivered whatever \<open>lastStatusHash\<close> holds), its meta carries the
  tag \<open>session_info_update\<close>, and once the latch is set \<open>emitTruncationNotice\<close> does
  nothing.
\<close>

theorem truncation_notice_once:
  assumes "shouldSendToolSummaries P"
    and "\<forall>x\<in>set xs. \<not> endsTurn x \<and> \<not> mimicsNotice P x"
  shows "count (mset (toolOutputs (run P s xs))) (truncationNotice P) =
           count (mset (toolOutputs s)) (truncationNotice P) +
             (if truncationOccurs P s xs \<and> \<not> truncationNoticeEmitted s then 1 else 0) \<and>
         truncationNoticeEmitted (run P s xs) =
           (truncationNoticeEmitted s \<or> truncationOccurs P s xs) \<and>
         emittedMetaEvents (emitTruncationNotice P s) = emittedMetaEvents s \<and>
         mset (toolOutputs (emitTruncationNotice P s)) =
           mset (toolOutputs s) + (if truncationNoticeEmitted s then {#} else {#truncationNotice P#}) \<and>
         truncationNotice P =
           (prefixSystemMessage P (js ''output truncated''),
            Some \<lparr>m_tag = Some (js ''session_info_update''), m_toolCallId = None,
                   m_toolStatus = None, m_allowEdit = None\<rparr>)"
proof (intro conjI)
  have bound: "16 \<le> maxStatusChars (settings P)"
    using settings_bounds [of P] by simp
  from run_notice_count [OF assms(1) bound assms(2), of s]
  show "count (mset (toolOutputs (run P s xs))) (truncationNotice P) =
      count (mset (toolOutputs s)) (truncationNotice P) +
        (if truncationOccurs P s xs \<and> \<not> truncationNoticeEmitted s then 1 else 0)"
    and "truncationNoticeEmitted (run P s xs) =
      (truncationNoticeEmitted s \<or> truncationOccurs P s xs)"
    by simp_all
  show "emittedMetaEvents (emitTruncationNotice P s) = emittedMetaEvents s"
    by simp
  show "mset (toolOutputs (emitTruncationNotice P s)) =
      mset (toolOutputs s) + (if truncationNoticeEmitted s then {#} else {#truncationNotice P#})"
    using emitTruncationNotice_first [OF assms(1) bound, of s]
    by (simp add: emitTruncationNotice_latched)
  show "truncationNotice P =
      (prefixSystemMessage P (js ''output truncated''),
       Some \<lparr>m_tag = Some (js ''session_info_update''), m_toolCallId = None,
              m_toolStatus = None, m_allowEdit = None\<rparr>)"
    by (simp add: truncationNotice_def)
qed

theorem truncation_notice_once_witness:
  "shouldSendToolSummaries tightProjector \<and>
   truncationOccurs tightProjector initialState
     [Event (TextDelta None None (js ''Hello'')), Event (TextDelta None None (js ''again''))] \<and>
   count (mset (toolOutputs (run tightProjector initialState
     [Event (TextDelta None None (js ''Hello'')), Event (TextDelta None None (js ''again''))])))
     (truncationNotice tightProjector) = 1 \<and>
   truncationNoticeEmitted (run tightProjector initialState
     [Event (TextDelta None None (js ''Hello'')), Event (TextDelta None None (js ''again''))])"
proof -
  let ?xs = "[Event (TextDelta None None (js ''Hello'')), Event (TextDelta None None (js ''again''))]"
  have a: "shouldSendToolSummaries tightProjector"
    by (simp add: tightProjector_def)
  have c: "\<forall>x\<in>set ?xs. \<not> endsTurn x \<and> \<not> mimicsNotice tightProjector x"
    by simp
  have "truncates tightProjector initialState (Event (TextDelta None None (js ''Hello'')))"
    by (simp add: projected_def eval_defs)
  then have occurs: "truncationOccurs tightProjector initialState ?xs"
    by simp
  have init: "toolOutputs initialState = []" "\<not> truncationNoticeEmitted initialState"
    by (simp_all add: toolOutputs_def initialState_def)
  note once = truncation_notice_once [OF a c, of initialState]
  from once [THEN conjunct1] occurs init
  have one: "count (mset (toolOutputs (run tightProjector initialState ?xs)))
      (truncationNotice tightProjector) = 1"
    by simp
  from once [THEN conjunct2, THEN conjunct1] occurs
  have latch: "truncationNoticeEmitted (run tightProjector initialState ?xs)"
    by simp
  from a occurs one latch show ?thesis
    by blast
qed

text \<open>
  Claim C3 as stated fails for a projector created with
  \<open>shouldSendToolSummaries = false\<close>: truncation occurs in the turn, and no notice is
  delivered or queued, not even once the turn is over. And a status event of the agent
  can be rendered exactly as the notice, without any truncation in the turn.
\<close>

theorem truncation_without_notice:
  "truncationOccurs quietProjector initialState [Event (TextDelta None None (js ''Hello''))] \<and>
   toolOutputs (run quietProjector initialState
     [Event (TextDelta None None (js ''Hello'')), Event Done]) = [] \<and>
   \<not> truncationOccurs infoProjector initialState
     [Event (Status (Some (js ''session_info_update'')) (js ''output truncated'') None None)] \<and>
   toolOutputs (run infoProjector initialState
     [Event (Status (Some (js ''session_info_update'')) (js ''output truncated'') None None)])
     = [truncationNotice infoProjector]"
proof -
  let ?info = "run infoProjector initialState
     [Event (Status (Some (js ''session_info_update'')) (js ''output truncated'') None None)]"
  have "truncates quietProjector initialState (Event (TextDelta None None (js ''Hello'')))"
    by (simp add: projected_def quietProjector_def eval_defs)
  then have a: "truncationOccurs quietProjector initialState
      [Event (TextDelta None None (js ''Hello''))]"
    by simp
  have b: "toolOutputs (run quietProjector initialState
     [Event (TextDelta None None (js ''Hello'')), Event Done]) = []"
    by (rule run_silent) (simp_all add: quietProjector_def toolOutputs_def initialState_def)
  have c: "\<not> truncationOccurs infoProjector initialState
     [Event (Status (Some (js ''session_info_update'')) (js ''output truncated'') None None)]"
    by simp
  have "out ?info = []"
    and "pendingToolDeliveries ?info = [truncationNotice infoProjector]"
    by (simp_all add: infoProjector_def truncationNotice_def eval_defs)
  then have d: "toolOutputs ?info = [truncationNotice infoProjector]"
    by (simp only: toolOutputs_queued)
  from a b c d show ?thesis
    by (intro conjI)
qed

subsection \<open>Separator at a hidden boundary\<close>




subsection \<open>The end of a turn\<close>



subsection \<open>Repeated tool summaries\<close>

text \<open>
  Claim C6, amended. With repeat suppression on, take a visible tool-call event that is
  not itself suppressed as a repeated start or as a repeat after a terminal status, and
  let the next event carry the same id and render to a summary with the same hash. Then
  the second event calls no collaborator and queues nothing. The first event records its
  hash for the id before the quota is consulted, so this is so also when the quota drops
  the first event. The two events together yield exactly one delivery when the first is
  delivered or queued (summaries are sent, its hash is not the one recorded for the id,
  the quota is not exhausted), and none otherwise. (This holds whatever the status of
  the second event.)
\<close>

theorem repeated_tool_summary_suppressed:
  assumes "repeatSuppression (settings P)"
    and "toolCallIdOf e1 = Some i" and "toolCallIdOf e2 = Some i"
    and "hashText (toolSummaryOf P e1) = hashText (toolSummaryOf P e2)"
    and "isAcpTagVisible (settings P) (tc_tag e1)"
    and "\<not> (isStartOf e1 \<and> started (lifecycleOf s i))"
    and "\<not> (hasTerminalStatus e1 \<and> terminal (lifecycleOf s i))"
  shows "out (onEvent P (ToolCall e2) (onEvent P (ToolCall e1) s)) =
           out (onEvent P (ToolCall e1) s) \<and>
         pendingToolDeliveries (onEvent P (ToolCall e2) (onEvent P (ToolCall e1) s)) =
           pendingToolDeliveries (onEvent P (ToolCall e1) s) \<and>
         (shouldSendToolSummaries P \<longrightarrow>
            lastRenderedHash (lifecycleOf (onEvent P (ToolCall e1) s) i) =
              Some (hashText (toolSummaryOf P e1))) \<and>
         (if shouldSendToolSummaries P \<and>
             lastRenderedHash (lifecycleOf s i) \<noteq> Some (hashText (toolSummaryOf P e1)) \<and>
             emittedMetaEvents s < maxMetaEventsPerTurn (settings P)
          then length (toolOutputs (run P s [Event (ToolCall e1), Event (ToolCall e2)])) =
                 length (toolOutputs s) + 1
          else toolOutputs (run P s [Event (ToolCall e1), Event (ToolCall e2)]) = toolOutputs s)"
proof -
  let ?s1 = "onToolCall P e1 s"
  let ?s2 = "onToolCall P e2 ?s1"
  note first = onToolCall_first_of_pair [OF assms(1,2,5,6,7)]
  have second: "out ?s2 = out ?s1 \<and> pendingToolDeliveries ?s2 = pendingToolDeliveries ?s1"
  proof (cases "shouldSendToolSummaries P")
    case True
    with first(1) assms(4)
    have "lastRenderedHash (lifecycleOf ?s1 i) = Some (hashText (toolSummaryOf P e2))"
      by simp
    from suppressRepeat_recorded_hash [OF assms(1,3) this] show ?thesis
      by (rule onToolCall_suppressed)
  next
    case False
    then show ?thesis
      by (simp add: onToolCall_def emitToolSummary_silent Let_def)
  qed
  then have same: "toolOutputs ?s2 = toolOutputs ?s1"
    by (simp add: toolOutputs_def)
  have none: "toolOutputs ?s1 = toolOutputs s"
    if "\<not> (shouldSendToolSummaries P \<and>
             lastRenderedHash (lifecycleOf s i) \<noteq> Some (hashText (toolSummaryOf P e1)) \<and>
             emittedMetaEvents s < maxMetaEventsPerTurn (settings P))"
    using that assms(5)
    by (auto simp: onToolCall_def emitToolSummary_def suppressRepeat_passes [OF assms(1,2,6,7)]
        deliverToolSummary_exhausted toolOutputs_def)
  from second first(1) first(2) same none show ?thesis
    by simp
qed

theorem repeated_tool_summary_suppressed_witness:
  "toolOutputs (onEvent verboseProjector
      (ToolCall (toolEvent ''tool_call_update'' ''T1'' ''running'')) initialState)
     = [(js ''Tool Call: status=running'', toolMeta ''tool_call_update'' ''T1'' ''running'' True)] \<and>
   length (toolOutputs (run verboseProjector initialState
      [Event (ToolCall (toolEvent ''tool_call_update'' ''T1'' ''running'')),
       Event (ToolCall (toolEvent ''tool_call_update'' '' T1 '' ''running ''))])) = 1 \<and>
   emittedMetaEvents (onEvent tightProjector
      (ToolCall (toolEvent ''tool_call_update'' ''T0'' ''running'')) initialState)
     = maxMetaEventsPerTurn (settings tightProjector) \<and>
   toolOutputs (run tightProjector
      (onEvent tightProjector (ToolCall (toolEvent ''tool_call_update'' ''T0'' ''running'')) initialState)
      [Event (ToolCall (toolEvent ''tool_call_update'' ''T1'' ''running'')),
       Event (ToolCall (toolEvent ''tool_call_update'' '' T1 '' ''running ''))])
     = toolOutputs (onEvent tightProjector
         (ToolCall (toolEvent ''tool_call_update'' ''T0'' ''running'')) initialState) \<and>
   lastRenderedHash (lifecycleOf
      (run tightProjector initialState
         [Event (ToolCall (toolEvent ''tool_call_update'' ''T0'' ''running'')),
          Event (ToolCall (toolEvent ''tool_call_update'' ''T1'' ''running''))])
      (js ''T1''))
     = Some (js ''Tool Call: status=running'')"
proof -
  let ?one = "toolEvent ''tool_call_update'' ''T1'' ''running''"
  let ?two = "toolEvent ''tool_call_update'' '' T1 '' ''running ''"
  let ?before = "onEvent tightProjector
      (ToolCall (toolEvent ''tool_call_update'' ''T0'' ''running'')) initialState"
  have id1: "toolCallIdOf ?one = Some (js ''T1'')" and id2: "toolCallIdOf ?two = Some (js ''T1'')"
    by (simp_all add: tool_eval_defs eval_defs)
  have nostart: "\<not> isStartOf ?one" and noterm: "\<not> hasTerminalStatus ?one"
    by (simp_all add: tool_eval_defs eval_defs isStartOf_def)
  have rs: "repeatSuppression (settings verboseProjector)"
    by (simp add: verboseProjector_def exampleProjector_def settings_eval)
  have vis: "isAcpTagVisible (settings verboseProjector) (tc_tag ?one)"
    by (simp add: tool_eval_defs eval_defs exampleProjector_def settings_eval)
  have same: "hashText (toolSummaryOf verboseProjector ?one) = hashText (toolSummaryOf verboseProjector ?two)"
    by (simp add: tool_eval_defs eval_defs)
  have fresh: "shouldSendToolSummaries verboseProjector \<and>
      lastRenderedHash (lifecycleOf initialState (js ''T1'')) \<noteq> Some (hashText (toolSummaryOf verboseProjector ?one)) \<and>
      emittedMetaEvents initialState < maxMetaEventsPerTurn (settings verboseProjector)"
    by (simp add: lifecycleOf_def initialState_def verboseProjector_def exampleProjector_def
        settings_eval)
  have "out (onEvent verboseProjector (ToolCall ?one) initialState) = []"
    and "pendingToolDeliveries (onEvent verboseProjector (ToolCall ?one) initialState)
      = [(js ''Tool Call: status=running'', toolMeta ''tool_call_update'' ''T1'' ''running'' True)]"
    by (simp_all add: tool_eval_defs eval_defs)
  then have first: "toolOutputs (onEvent verboseProjector (ToolCall ?one) initialState)
      = [(js ''Tool Call: status=running'', toolMeta ''tool_call_update'' ''T1'' ''running'' True)]"
    by (simp only: toolOutputs_queued)
  have init: "toolOutputs initialState = []"
    by (simp add: toolOutputs_def initialState_def)
  from repeated_tool_summary_suppressed [OF rs id1 id2 same vis, of initialState]
    nostart noterm fresh init
  have delivered: "length (toolOutputs (run verboseProjector initialState
      [Event (ToolCall ?one), Event (ToolCall ?two)])) = 1"
    by simp
  have rs': "repeatSuppression (settings tightProjector)"
    by (simp add: tightProjector_def settings_eval)
  have vis': "isAcpTagVisible (settings tightProjector) (tc_tag ?one)"
    by (simp add: tool_eval_defs eval_defs tightProjector_def settings_eval)
  have same': "hashText (toolSummaryOf tightProjector ?one) = hashText (toolSummaryOf tightProjector ?two)"
    by (simp add: tool_eval_defs eval_defs)
  have full: "emittedMetaEvents ?before = maxMetaEventsPerTurn (settings tightProjector)"
    by (simp add: tool_eval_defs eval_defs)
  have sends: "shouldSendToolSummaries tightProjector"
    by (simp add: tightProjector_def)
  have rendered: "hashText (toolSummaryOf tightProjector ?one) = js ''Tool Call: status=running''"
    by (simp add: tool_eval_defs eval_defs)
  note pair = repeated_tool_summary_suppressed [OF rs' id1 id2 same' vis', of ?before]
  from pair nostart noterm full
  have dropped: "toolOutputs (run tightProjector ?before
      [Event (ToolCall ?one), Event (ToolCall ?two)]) = toolOutputs ?before"
    by simp
  from pair nostart noterm sends rendered
  have recorded: "lastRenderedHash (lifecycleOf (onEvent tightProjector (ToolCall ?one) ?before)
      (js ''T1'')) = Some (js ''Tool Call: status=running'')"
    by simp
  then have recorded': "lastRenderedHash (lifecycleOf
      (run tightProjector initialState
         [Event (ToolCall (toolEvent ''tool_call_update'' ''T0'' ''running'')),
          Event (ToolCall ?one)])
      (js ''T1'')) = Some (js ''Tool Call: status=running'')"
    by (simp only: run_Cons run_Nil stimulate.simps)
  from first delivered full dropped recorded' show ?thesis
    by (intro conjI)
qed

text \<open>
  Claim C6 as stated fails when the first of the two events is itself suppressed as a
  repeated start: after a delivered start for the id, a \<open>tool_call\<close> event and a
  \<open>tool_call_update\<close> event with the same status render to the same summary, neither
  status is terminal, and it is the second of the two that is delivered.
\<close>

theorem second_of_equal_summaries_delivered:
  "hashText (toolSummaryOf verboseProjector (toolEvent ''tool_call'' ''T1'' ''pending'')) =
   hashText (toolSummaryOf verboseProjector (toolEvent ''tool_call_update'' ''T1'' ''pending'')) \<and>
   toolOutputs (run verboseProjector initialState
      [Event (ToolCall (toolEvent ''tool_call'' ''T1'' ''in_progress'')),
       Event (ToolCall (toolEvent ''tool_call'' ''T1'' ''pending''))])
     = [(js ''Tool Call: status=in_progress'', toolMeta ''tool_call'' ''T1'' ''in_progress'' False)] \<and>
   toolOutputs (run verboseProjector initialState
      [Event (ToolCall (toolEvent ''tool_call'' ''T1'' ''in_progress'')),
       Event (ToolCall (toolEvent ''tool_call'' ''T1'' ''pending'')),
       Event (ToolCall (toolEvent ''tool_call_update'' ''T1'' ''pending''))])
     = [(js ''Tool Call: status=in_progress'', toolMeta ''tool_call'' ''T1'' ''in_progress'' False),
        (js ''Tool Call: status=pending'', toolMeta ''tool_call_update'' ''T1'' ''pending'' True)]"
proof -
  let ?two = "run verboseProjector initialState
      [Event (ToolCall (toolEvent ''tool_call'' ''T1'' ''in_progress'')),
       Event (ToolCall (toolEvent ''tool_call'' ''T1'' ''pending''))]"
  let ?three = "run verboseProjector initialState
      [Event (ToolCall (toolEvent ''tool_call'' ''T1'' ''in_progress'')),
       Event (ToolCall (toolEvent ''tool_call'' ''T1'' ''pending'')),
       Event (ToolCall (toolEvent ''tool_call_update'' ''T1'' ''pending''))]"
  have a: "hashText (toolSummaryOf verboseProjector (toolEvent ''tool_call'' ''T1'' ''pending'')) =
      hashText (toolSummaryOf verboseProjector (toolEvent ''tool_call_update'' ''T1'' ''pending''))"
    by (simp add: tool_eval_defs eval_defs)
  have "out ?two = []"
    and "pendingToolDeliveries ?two
     = [(js ''Tool Call: status=in_progress'', toolMeta ''tool_call'' ''T1'' ''in_progress'' False)]"
    by (simp_all add: tool_eval_defs eval_defs)
  then have b: "toolOutputs ?two
     = [(js ''Tool Call: status=in_progress'', toolMeta ''tool_call'' ''T1'' ''in_progress'' False)]"
    by (simp only: toolOutputs_queued)
  have "out ?three = []"
    and "pendingToolDeliveries ?three
     = [(js ''Tool Call: status=in_progress'', toolMeta ''tool_call'' ''T1'' ''in_progress'' False),
        (js ''Tool Call: status=pending'', toolMeta ''tool_call_update'' ''T1'' ''pending'' True)]"
    by (simp_all add: tool_eval_defs eval_defs)
  then have c: "toolOutputs ?three
     = [(js ''Tool Call: status=in_progress'', toolMeta ''tool_call'' ''T1'' ''in_progress'' False),
        (js ''Tool Call: status=pending'', toolMeta ''tool_call_update'' ''T1'' ''pending'' True)]"
    by (simp only: toolOutputs_queued)
  from a b c show ?thesis
    by (intro conjI)
qed

subsection \<open>The meta quota\<close>

text \<open>
  Claim C7. From a state whose meta counter is within the quota (as it is at the start
  of a turn), after any sequence of events, timer expiries and flushes,
  \<open>emittedMetaEvents\<close> is at most \<open>maxMetaEventsPerTurn\<close>. A forced attempt passes
  \<open>consumeMetaQuota\<close> without consuming; a non-forced one consumes one unit while the
  quota lasts and is refused afterwards. A status or tool-call event (a non-forced
  attempt) raises the counter by the number of deliveries it makes or queues, a
  \<open>text_delta\<close> event (whose truncation notice is forced) leaves the counter as it is. Once
  the counter has reached the quota, a status or tool-call event calls no collaborator,
  queues nothing and leaves the counter unchanged.
\<close>

theorem meta_quota:
  assumes "emittedMetaEvents s \<le> maxMetaEventsPerTurn (settings P)"
  shows "emittedMetaEvents (run P s xs) \<le> maxMetaEventsPerTurn (settings P) \<and>
         consumeMetaQuota P True s = (True, s) \<and>
         consumeMetaQuota P False s =
           (if emittedMetaEvents s < maxMetaEventsPerTurn (settings P)
            then (True, s\<lparr>emittedMetaEvents := emittedMetaEvents s + 1\<rparr>) else (False, s)) \<and>
         (attemptsMetaDelivery e \<longrightarrow>
            length (toolOutputs (onEvent P e s)) + emittedMetaEvents s =
              length (toolOutputs s) + emittedMetaEvents (onEvent P e s)) \<and>
         emittedMetaEvents (onEvent P (TextDelta stream tg text) s) = emittedMetaEvents s \<and>
         (attemptsMetaDelivery e \<and> emittedMetaEvents s = maxMetaEventsPerTurn (settings P) \<longrightarrow>
            out (onEvent P e s) = out s \<and>
            pendingToolDeliveries (onEvent P e s) = pendingToolDeliveries s \<and>
            emittedMetaEvents (onEvent P e s) = emittedMetaEvents s)"
proof (intro conjI impI)
  show "emittedMetaEvents (run P s xs) \<le> maxMetaEventsPerTurn (settings P)"
    using assms by (rule run_meta_le)
  show "consumeMetaQuota P True s = (True, s)"
    by (simp add: consumeMetaQuota_def)
  show "consumeMetaQuota P False s =
      (if emittedMetaEvents s < maxMetaEventsPerTurn (settings P)
       then (True, s\<lparr>emittedMetaEvents := emittedMetaEvents s + 1\<rparr>) else (False, s))"
    by (simp add: consumeMetaQuota_def)
  show "emittedMetaEvents (onEvent P (TextDelta stream tg text) s) = emittedMetaEvents s"
    by simp
  {
    assume "attemptsMetaDelivery e"
    then show "length (toolOutputs (onEvent P e s)) + emittedMetaEvents s =
        length (toolOutputs s) + emittedMetaEvents (onEvent P e s)"
      by (cases e) (simp_all add: onStatus_accounting onToolCall_accounting)
  }
  {
    assume full: "attemptsMetaDelivery e \<and> emittedMetaEvents s = maxMetaEventsPerTurn (settings P)"
    then have le: "maxMetaEventsPerTurn (settings P) \<le> emittedMetaEvents s"
      by simp
    from full show "out (onEvent P e s) = out s"
      by (cases e) (simp_all add: onStatus_exhausted [OF le] onToolCall_exhausted [OF le])
    from full show "pendingToolDeliveries (onEvent P e s) = pendingToolDeliveries s"
      by (cases e) (simp_all add: onStatus_exhausted [OF le] onToolCall_exhausted [OF le])
    from full show "emittedMetaEvents (onEvent P e s) = emittedMetaEvents s"
      by (cases e) (simp_all add: onStatus_exhausted [OF le] onToolCall_exhausted [OF le])
  }
qed

theorem meta_quota_witness:
  "emittedMetaEvents
     (onEvent tightProjector (Status (Some (js ''plan'')) (js ''working'') None None) initialState)
     = maxMetaEventsPerTurn (settings tightProjector) \<and>
   attemptsMetaDelivery (Status (Some (js ''plan'')) (js ''still working'') None None) \<and>
   out (onEvent tightProjector (Status (Some (js ''plan'')) (js ''still working'') None None)
         (onEvent tightProjector (Status (Some (js ''plan'')) (js ''working'') None None) initialState))
     = out (onEvent tightProjector (Status (Some (js ''plan'')) (js ''working'') None None) initialState) \<and>
   pendingToolDeliveries
      (onEvent tightProjector (Status (Some (js ''plan'')) (js ''still working'') None None)
         (onEvent tightProjector (Status (Some (js ''plan'')) (js ''working'') None None) initialState))
     = pendingToolDeliveries
         (onEvent tightProjector (Status (Some (js ''plan'')) (js ''working'') None None) initialState) \<and>
   emittedMetaEvents
      (run tightProjector
         (onEvent tightProjector (Status (Some (js ''plan'')) (js ''working'') None None) initialState)
         [Event (Status (Some (js ''plan'')) (js ''still working'') None None), Event Done])
     \<le> maxMetaEventsPerTurn (settings tightProjector)"
proof -
  let ?s = "onEvent tightProjector (Status (Some (js ''plan'')) (js ''working'') None None) initialState"
  let ?e = "Status (Some (js ''plan'')) (js ''still working'') None None"
  have full: "emittedMetaEvents ?s = maxMetaEventsPerTurn (settings tightProjector)"
    by (simp add: eval_defs)
  then have le: "emittedMetaEvents ?s \<le> maxMetaEventsPerTurn (settings tightProjector)"
    by simp
  have att: "attemptsMetaDelivery ?e"
    by simp
  from meta_quota [OF le, of "[Event ?e, Event Done]" ?e None None "[]"] full att
  show ?thesis
    by blast
qed

subsection \<open>The pending-boundary flag\<close>

text \<open>
  Claim C8, amended. After a \<open>text_delta\<close> event whose tag is visible, whose stream is the
  output stream and whose text is not empty, \<open>pendingHiddenBoundary\<close> is false, whether
  or not a separator was inserted. (An empty fragment returns before the flag is
  cleared.)
\<close>

theorem boundary_cleared_by_visible_text:
  assumes "projected P stream tg text"
  shows "\<not> pendingHiddenBoundary (onEvent P (TextDelta stream tg text) s)"
proof -
  from assms have guards: "\<not> (truthy stream \<and> stream \<noteq> Some (js ''output''))"
    "isAcpTagVisible (settings P) tg" "text \<noteq> []"
    by (simp_all add: projected_def)
  have "\<not> pendingHiddenBoundary (onTextDelta P stream tg text s)"
    using guards by (auto simp: onTextDelta_def Let_def)
  then show ?thesis
    by simp
qed

theorem boundary_cleared_by_visible_text_witness:
  "projected exampleProjector None None (js ''y'') \<and>
   pendingHiddenBoundary (initialState\<lparr>pendingHiddenBoundary := True\<rparr>) \<and>
   \<not> pendingHiddenBoundary
       (onEvent exampleProjector (TextDelta None None (js ''y''))
          (initialState\<lparr>pendingHiddenBoundary := True\<rparr>))"
proof -
  have vis: "projected exampleProjector None None (js ''y'')"
    by (simp add: projected_def isAcpTagVisible_def js_def)
  from boundary_cleared_by_visible_text [OF vis] vis show ?thesis
    by simp
qed

text \<open>
  Claim C8 as stated fails for the empty fragment: after a hidden \<open>tool_call\<close> has set
  the flag, a visible \<open>text_delta\<close> of the output stream with empty text leaves it set.
\<close>

theorem boundary_kept_by_empty_fragment:
  "pendingHiddenBoundary
     (run exampleProjector initialState
        [Event (ToolCall \<lparr>tc_tag = Some (js ''tool_call''), tc_toolCallId = Some (js ''T1''),
                          tc_title = None, tc_status = None, tc_text = None\<rparr>),
         Event (TextDelta (Some (js ''output'')) (Some (js ''agent_message_chunk'')) [])])"
  by (simp add: onToolCall_def onTextDelta_def isAcpTagVisible_def exampleProjector_def
      settings_eval ACP_TAG_VISIBILITY_DEFAULTS_def HIDDEN_BOUNDARY_TAGS_def js_def
      initialState_def Let_def)

subsection \<open>A projector that sends no tool summaries\<close>

text \<open>
  Claim C9. A projector created with \<open>shouldSendToolSummaries = false\<close> never makes
  or queues a tool delivery: after any sequence of events, timer expiries and flushes
  from the initial state, no \<open>deliver("tool", ...)\<close> call has been made and
  \<open>pendingToolDeliveries\<close> is empty. A status or tool-call event calls no collaborator
  and queues nothing. Where truncation occurs, nothing is delivered or queued either, and
  the latch \<open>truncationNoticeEmitted\<close> is set all the same.
\<close>

theorem no_tool_delivery_without_summaries:
  assumes "\<not> shouldSendToolSummaries P"
  shows "toolOutputs (run P initialState xs) = [] \<and>
         (attemptsMetaDelivery e \<longrightarrow>
            out (onEvent P e s) = out s \<and>
            pendingToolDeliveries (onEvent P e s) = pendingToolDeliveries s) \<and>
         (truncates P s x \<longrightarrow>
            truncationNoticeEmitted (stimulate P s x) \<and>
            toolOutputs (stimulate P s x) = toolOutputs s)"
proof (intro conjI impI)
  show "toolOutputs (run P initialState xs) = []"
    using assms by (rule run_silent) (simp add: toolOutputs_def initialState_def)
  {
    assume "attemptsMetaDelivery e"
    then show "out (onEvent P e s) = out s"
      by (cases e) (simp_all add: onStatus_silent [OF assms] onToolCall_silent [OF assms])
    assume "attemptsMetaDelivery e"
    then show "pendingToolDeliveries (onEvent P e s) = pendingToolDeliveries s"
      by (cases e) (simp_all add: onStatus_silent [OF assms] onToolCall_silent [OF assms])
  }
  {
    assume tr: "truncates P s x"
    then show "truncationNoticeEmitted (stimulate P s x)"
      by (rule truncates_latch)
    from tr obtain st tg t where "x = Event (TextDelta st tg t)"
      by (rule truncates_TextDelta)
    then show "toolOutputs (stimulate P s x) = toolOutputs s"
      by (simp add: onTextDelta_silent [OF assms])
  }
qed

theorem no_tool_delivery_without_summaries_witness:
  "\<not> shouldSendToolSummaries quietProjector \<and>
   toolOutputs (run quietProjector initialState
     [Event (TextDelta None None (js ''Hello'')),
      Event (Status (Some (js ''plan'')) (js ''working'') None None),
      Event Done]) = [] \<and>
   attemptsMetaDelivery (Status (Some (js ''plan'')) (js ''working'') None None) \<and>
   out (onEvent quietProjector (Status (Some (js ''plan'')) (js ''working'') None None) initialState)
     = out initialState \<and>
   truncates quietProjector initialState (Event (TextDelta None None (js ''Hello''))) \<and>
   truncationNoticeEmitted
     (stimulate quietProjector initialState (Event (TextDelta None None (js ''Hello'')))) \<and>
   toolOutputs (stimulate quietProjector initialState (Event (TextDelta None None (js ''Hello''))))
     = []"
proof -
  have quiet: "\<not> shouldSendToolSummaries quietProjector"
    by (simp add: quietProjector_def)
  have att: "attemptsMetaDelivery (Status (Some (js ''plan'')) (js ''working'') None None)"
    by simp
  have tr: "truncates quietProjector initialState (Event (TextDelta None None (js ''Hello'')))"
    by (simp add: projected_def quietProjector_def eval_defs)
  have init: "toolOutputs initialState = []"
    by (simp add: toolOutputs_def initialState_def)
  from no_tool_delivery_without_summaries [OF quiet,
      of "[Event (TextDelta None None (js ''Hello'')),
           Event (Status (Some (js ''plan'')) (js ''working'') None None), Event Done]"
         "Status (Some (js ''plan'')) (js ''working'') None None" initialState
         "Event (TextDelta None None (js ''Hello''))"]
    quiet att tr init
  show ?thesis
    by simp
qed

subsection \<open>Tags without an entry\<close>

text \<open>
  Claim C10. An event without a tag (\<open>undefined\<close> or the empty string), and an event
  whose tag has no override in \<open>tagVisibility\<close> and is not a key of
  \<open>ACP_TAG_VISIBILITY_DEFAULTS\<close>, is visible.
\<close>

theorem isAcpTagVisible_untagged_or_unknown:
  assumes "tg = None \<or> tg = Some [] \<or>
           (\<exists>t. tg = Some t \<and> tagVisibility st t = None
                \<and> t \<notin> fst ` set ACP_TAG_VISIBILITY_DEFAULTS)"
  shows "isAcpTagVisible st tg"
proof -
  have unknown: "isAcpTagVisible st (Some t)"
    if "tagVisibility st t = None" and "t \<notin> fst ` set ACP_TAG_VISIBILITY_DEFAULTS" for t
  proof -
    from that(2) have "map_of ACP_TAG_VISIBILITY_DEFAULTS t = None"
      by (simp add: map_of_eq_None_iff)
    with that(1) show ?thesis
      by (simp add: isAcpTagVisible_def)
  qed
  from assms consider "tg = None" | "tg = Some []"
    | t where "tg = Some t" "tagVisibility st t = None"
        "t \<notin> fst ` set ACP_TAG_VISIBILITY_DEFAULTS"
    by blast
  then show ?thesis
  proof cases
    case 1
    then show ?thesis by (simp add: isAcpTagVisible_def)
  next
    case 2
    then show ?thesis by (simp add: isAcpTagVisible_def)
  next
    case 3
    then show ?thesis using unknown by simp
  qed
qed

theorem isAcpTagVisible_untagged_or_unknown_witness:
  "isAcpTagVisible (settings exampleProjector) None \<and> isAcpTagVisible (settings exampleProjector) (Some []) \<and>
   tagVisibility (settings exampleProjector) (js ''custom_update'') = None \<and>
   js ''custom_update'' \<notin> fst ` set ACP_TAG_VISIBILITY_DEFAULTS \<and>
   isAcpTagVisible (settings exampleProjector) (Some (js ''custom_update''))"
proof -
  have a: "tagVisibility (settings exampleProjector) (js ''custom_update'') = None"
    by (simp add: exampleProjector_def settings_eval js_def)
  have b: "js ''custom_update'' \<notin> fst ` set ACP_TAG_VISIBILITY_DEFAULTS"
    by (simp add: ACP_TAG_VISIBILITY_DEFAULTS_def js_def)
  show ?thesis
    using a b
      isAcpTagVisible_untagged_or_unknown [of None "settings exampleProjector"]
      isAcpTagVisible_untagged_or_unknown [of "Some []" "settings exampleProjector"]
      isAcpTagVisible_untagged_or_unknown [of "Some (js ''custom_update'')" "settings exampleProjector"]
    by blast
qed

end
